theory Spec2Isabelle
  imports Main "HOL-Library.Sublist"
begin

section \<open>Python values, dictionaries and exceptions\<close>

text \<open>
  The schema handed over by the Solr Schema API is JSON. An attribute bag (the
  configuration of one tokenizer, filter or char filter, and the free attributes of a
  field) is a Python \<^verbatim>\<open>dict\<close> from attribute names to JSON values; it is modelled as an
  association list in the dictionary's iteration order, read with \<open>map_of\<close>.
\<close>

datatype jvalue = JNull | JBool bool | JNum int | JStr string | JList "jvalue list"

type_synonym attrs = "(string \<times> jvalue) list"

text \<open>\<^verbatim>\<open>d.get(k)\<close>: \<^verbatim>\<open>None\<close> both for a missing key and for a JSON null.\<close>

definition py_get :: "attrs \<Rightarrow> string \<Rightarrow> jvalue" where
  "py_get d k = (case map_of d k of None \<Rightarrow> JNull | Some v \<Rightarrow> v)"

text \<open>
  Exceptions are values. The classes of \<^verbatim>\<open>migrate/exceptions.py\<close> keep their names and
  their constructor arguments in the order of \<^verbatim>\<open>__init__\<close>; the built-in errors that the
  modelled code can raise carry their message; \<open>ExternalError\<close> stands for whatever an
  external collaborator (network client, file system) raises that is none of the
  migration's own classes.
\<close>

datatype exn =
    AttributeError string
  | IndexError string
  | ExternalError string
  | OpenSearchMappingException "string option" string
  | TokenizerMappingException string string
  | FilterMappingException string string
  | CharFilterMappingException string string
  | AnalyzerMappingException string "exn option" "exn option" "exn option"
  | FieldTypeMappingException string string "exn option"
  | FieldMappingException string string "string option"
  | DynamicFieldMappingException string string "string option"
  | CopyFieldMappingException string string "string option"

definition MAPPING_NOT_FOUND :: string where
  "MAPPING_NOT_FOUND = ''Implementation not available.''"

text \<open>
  \<^verbatim>\<open>str(e)\<close>: the message passed to \<^verbatim>\<open>super().__init__\<close>. The analyzer exception builds
  its message from its sub-exceptions (an exception object is always truthy, so
  \<^verbatim>\<open>if tokenizer_exception:\<close> tests for \<^verbatim>\<open>None\<close>).
\<close>

fun exn_str :: "exn \<Rightarrow> string" where
  "exn_str (AttributeError m) = m"
| "exn_str (IndexError m) = m"
| "exn_str (ExternalError m) = m"
| "exn_str (OpenSearchMappingException n m) = m"
| "exn_str (TokenizerMappingException n m) = m"
| "exn_str (FilterMappingException n m) = m"
| "exn_str (CharFilterMappingException n m) = m"
| "exn_str (AnalyzerMappingException n fe te ce) =
     ''Analyzer '' @ [CHR 0x27] @ n @ [CHR 0x27] @ '' failed''
     @ (case te of None \<Rightarrow> [] | Some t \<Rightarrow> '' - Tokenizer: '' @ exn_str t)
     @ (case fe of None \<Rightarrow> [] | Some f \<Rightarrow> '' - Filter: '' @ exn_str f)
     @ (case ce of None \<Rightarrow> [] | Some c \<Rightarrow> '' - CharFilter: '' @ exn_str c)"
| "exn_str (FieldTypeMappingException n m a) = m"
| "exn_str (FieldMappingException n m t) = m"
| "exn_str (DynamicFieldMappingException n m t) = m"
| "exn_str (CopyFieldMappingException n m s) = m"

section \<open>String operations of the Python standard library\<close>

text \<open>
  \<^verbatim>\<open>str.lower()\<close> on the ASCII letters; every other character is left as it is (construct
  names and class names of a Solr schema are ASCII identifiers).
\<close>

definition lower_char :: "char \<Rightarrow> char" where
  "lower_char c =
     (case map_of (zip ''ABCDEFGHIJKLMNOPQRSTUVWXYZ'' ''abcdefghijklmnopqrstuvwxyz'') c of
        Some d \<Rightarrow> d | None \<Rightarrow> c)"

definition lower :: "string \<Rightarrow> string" where
  "lower s = map lower_char s"

text \<open>\<^verbatim>\<open>s.split(sep)\<close> for a one-character separator: never empty.\<close>

fun split_on :: "char \<Rightarrow> string \<Rightarrow> string list" where
  "split_on sep [] = [[]]"
| "split_on sep (c # cs) =
     (let r = split_on sep cs in if c = sep then [] # r else (c # hd r) # tl r)"

text \<open>\<^verbatim>\<open>m in s\<close> for strings: \<open>m\<close> occurs in \<open>s\<close> as a contiguous substring.\<close>

fun contains :: "string \<Rightarrow> string \<Rightarrow> bool" where
  "contains m [] = (m = [])"
| "contains m (c # cs) = (prefix m (c # cs) \<or> contains m cs)"

text \<open>
  \<^verbatim>\<open>s.split(m)[0]\<close> for a non-empty \<open>m\<close>: the text before the first occurrence of \<open>m\<close>,
  the whole of \<open>s\<close> when \<open>m\<close> does not occur.
\<close>

fun before_first :: "string \<Rightarrow> string \<Rightarrow> string" where
  "before_first m [] = []"
| "before_first m (c # cs) = (if prefix m (c # cs) then [] else c # before_first m cs)"

section \<open>Name resolution of a source construct\<close>

text \<open>
  \<^verbatim>\<open>FilterHelper._get_filter_name\<close>, used for filters and for char filters. The class
  name is split at the dots and the element at index 1 is taken; \<^verbatim>\<open>None.split\<close> and
  \<^verbatim>\<open>.lower\<close> of a value that is no string raise \<^verbatim>\<open>AttributeError\<close>, index 1 of a
  one-element list raises \<^verbatim>\<open>IndexError\<close>. A segment that holds none of the three markers
  falls through the \<^verbatim>\<open>if\<close>/\<^verbatim>\<open>elif\<close> chain and is returned as it is.
\<close>

definition get_filter_name :: "attrs \<Rightarrow> exn + string" where
  "get_filter_name filter_config =
     (case py_get filter_config ''name'' of
        JNull \<Rightarrow>
          (case py_get filter_config ''class'' of
             JStr cls \<Rightarrow>
               (case split_on (CHR ''.'') cls of
                  _ # name # _ \<Rightarrow>
                    Inr (if contains ''TokenFilterFactory'' name
                           then lower (before_first ''TokenFilterFactory'' name)
                         else if contains ''CharFilterFactory'' name
                           then lower (before_first ''CharFilterFactory'' name)
                         else if contains ''FilterFactory'' name
                           then lower (before_first ''FilterFactory'' name)
                         else name)
                | _ \<Rightarrow> Inl (IndexError ''list index out of range''))
           | _ \<Rightarrow> Inl (AttributeError ''object has no attribute split''))
      | JStr name \<Rightarrow> Inr (lower name)
      | _ \<Rightarrow> Inl (AttributeError ''object has no attribute lower''))"

text \<open>\<^verbatim>\<open>TokenizerHelper._get_tokenizer_name\<close>.\<close>

definition get_tokenizer_name :: "attrs \<Rightarrow> exn + string" where
  "get_tokenizer_name solr_tokenizer_config =
     (case py_get solr_tokenizer_config ''name'' of
        JNull \<Rightarrow>
          (case py_get solr_tokenizer_config ''class'' of
             JStr cls \<Rightarrow>
               (case split_on (CHR ''.'') cls of
                  _ # name # _ \<Rightarrow>
                    Inr (if contains ''TokenizerFactory'' name
                           then lower (before_first ''TokenizerFactory'' name)
                         else name)
                | _ \<Rightarrow> Inl (IndexError ''list index out of range''))
           | _ \<Rightarrow> Inl (AttributeError ''object has no attribute split''))
      | JStr name \<Rightarrow> Inr (lower name)
      | _ \<Rightarrow> Inl (AttributeError ''object has no attribute lower''))"


section \<open>Mapping tables, target constructs and the collaborators\<close>

text \<open>
  One entry of a mapping table (\<^verbatim>\<open>filter_mapping.json\<close>, \<^verbatim>\<open>char_filters_mapping.json\<close>,
  \<^verbatim>\<open>tokenizer_mapping.json\<close>) holds the target \<^verbatim>\<open>type\<close> and one rule per target
  attribute. The code tests a rule for the key \<^verbatim>\<open>valueFrom\<close>, then for
  \<^verbatim>\<open>valueFromFile\<close>, and reads \<^verbatim>\<open>default\<close>; of \<^verbatim>\<open>create_package\<close> it tests only
  whether the key is there (\<open>None\<close> when it is not). The JSON files are not part of the
  sources, so the tables are parameters of the model (keys already lowercased, as the
  constructors of the helpers do).
\<close>

datatype rule =
    ValueFrom string jvalue
  | ValueFromFile string "bool option" jvalue
  | Default jvalue

record target_spec =
  ttype :: string
  tattrs :: "(string \<times> rule) list"

text \<open>
  The objects built by \<^verbatim>\<open>opensearchpy.tokenizer\<close>, \<^verbatim>\<open>token_filter\<close> and \<^verbatim>\<open>char_filter\<close>:
  kind, name, type and the keyword arguments. \<open>RawDef\<close> is the plain dictionary that
  \<^verbatim>\<open>_map_char_filter\<close> puts into \<^verbatim>\<open>_filter_map\<close>.
\<close>

datatype construct_kind = Tokenizer | TokenFilter | CharFilter

datatype construct =
    Construct construct_kind string string attrs
  | RawDef attrs

record migration_config =
  create_package :: bool
  expand_files_array :: bool
  skip_text_analysis_failure :: bool
  map_fields_on_analyzer_failure :: bool

text \<open>
  The collaborators that the sources only call: the Solr client (collection name, file
  contents), the package lifecycle of the OpenSearch client reduced to its result (the
  package id, or the exception it raises), and the SHA-256 digest of the canonical JSON
  text of a dictionary read as a number,
  \<^verbatim>\<open>int(sha256(json.dumps(d, sort_keys=True)).hexdigest(), 16)\<close>, a function of the
  dictionary's content only.
\<close>

record env =
  collection :: string
  tokenizer_mapping :: "string \<rightharpoonup> target_spec"
  filter_mapping :: "string \<rightharpoonup> target_spec"
  char_filter_mapping :: "string \<rightharpoonup> target_spec"
  field_data_types_mapping :: "string \<rightharpoonup> string"
  attributes_mapping :: "(string \<times> string) list"
  config :: migration_config
  get_solr_file_data :: "jvalue \<Rightarrow> exn + string"
  create_and_associate_package :: "string \<Rightarrow> string \<Rightarrow> exn + string"
  digest :: "(string \<rightharpoonup> jvalue) \<Rightarrow> nat"

text \<open>
  What the mapping leaves outside the process: a package file written to the package
  directory, and a package created (or updated) and associated with the domain.
\<close>

datatype effect =
    WritePackageFile string "string list"
  | CreateAndAssociatePackage string string

record package_entry =
  package_name :: string
  package_attrib :: string
  filter_attrib_value :: string

text \<open>
  The mutable state of the helper objects: \<^verbatim>\<open>TokenizerHelper._tokenizer_map\<close>,
  \<^verbatim>\<open>FilterHelper._filter_map\<close> and \<^verbatim>\<open>_packages_map\<close>,
  \<^verbatim>\<open>FieldTypeHelper._field_types_map\<close> (a type name may be bound to \<^verbatim>\<open>None\<close>), and the
  effects so far, oldest first.
\<close>

record helper_state =
  tokenizer_map :: "string \<rightharpoonup> string"
  filter_map :: "string \<rightharpoonup> construct"
  packages_map :: "string \<rightharpoonup> package_entry"
  field_types_map :: "string \<rightharpoonup> string option"
  effects :: "effect list"

definition init_helper_state :: helper_state where
  "init_helper_state =
     \<lparr>tokenizer_map = Map.empty, filter_map = Map.empty, packages_map = Map.empty,
      field_types_map = Map.empty, effects = []\<rparr>"

text \<open>\<^verbatim>\<open>d[k] = v\<close> on a dictionary: an existing key keeps its place.\<close>

definition dict_set :: "('k \<times> 'v) list \<Rightarrow> 'k \<Rightarrow> 'v \<Rightarrow> ('k \<times> 'v) list" where
  "dict_set d k v =
     (if k \<in> fst ` set d then map (\<lambda>(k', v'). if k' = k then (k', v) else (k', v')) d
      else d @ [(k, v)])"

subsection \<open>The content hash\<close>

text \<open>\<^verbatim>\<open>str(n)\<close> for a natural number.\<close>

fun str_nat :: "nat \<Rightarrow> string" where
  "str_nat n =
     (if n < 10 then [''0123456789'' ! n]
      else str_nat (n div 10) @ [''0123456789'' ! (n mod 10)])"

declare str_nat.simps [simp del]

text \<open>\<^verbatim>\<open>utils.get_hash\<close>.\<close>

definition get_hash :: "env \<Rightarrow> attrs \<Rightarrow> string" where
  "get_hash e d = str_nat (digest e (map_of d) mod 10 ^ 8)"

subsection \<open>Dictionary files\<close>

text \<open>
  Python's \<^verbatim>\<open>str.isspace\<close> on the code points below 256, which is also the class
  \<^verbatim>\<open>\s\<close> of \<^verbatim>\<open>re\<close> there; a \<open>char\<close> stands for such a code point.
\<close>

definition is_space :: "char \<Rightarrow> bool" where
  "is_space c =
     (let n = (of_char c :: nat)
      in (9 \<le> n \<and> n \<le> 13) \<or> (28 \<le> n \<and> n \<le> 32) \<or> n = 133 \<or> n = 160)"

definition strip :: "string \<Rightarrow> string" where
  "strip s = rev (dropWhile is_space (rev (dropWhile is_space s)))"

definition startswith :: "string \<Rightarrow> string \<Rightarrow> bool" where
  "startswith s p = prefix p s"

text \<open>\<^verbatim>\<open>line.replace('\t', ' => ')\<close>.\<close>

definition replace_tab :: "string \<Rightarrow> string" where
  "replace_tab s = concat (map (\<lambda>c. if c = CHR 0x09 then '' => '' else [c]) s)"

text \<open>\<^verbatim>\<open>FilterHelper._get_file_data\<close>.\<close>

definition get_file_data :: "env \<Rightarrow> string \<Rightarrow> jvalue \<Rightarrow> exn + string list" where
  "get_file_data e filter_name filename =
     (case get_solr_file_data e filename of
        Inl x \<Rightarrow> Inl x
      | Inr data \<Rightarrow>
          Inr (concat (map (\<lambda>line0.
                 let line = strip line0
                 in if \<not> startswith line ''#'' \<and> \<not> startswith line ''|''
                       \<and> strip line \<noteq> [] \<and> strip line \<noteq> ''|''
                    then [if startswith (lower filter_name) ''stemmeroverride''
                          then replace_tab line else line]
                    else [])
               (split_on (CHR 0x0A) data))))"

subsection \<open>Packages\<close>

definition opensearch_package_dir :: "env \<Rightarrow> string" where
  "opensearch_package_dir e = ''migration_schema/'' @ collection e @ ''/packages''"

text \<open>
  \<^verbatim>\<open>FilterHelper._handle_packages\<close> with \<^verbatim>\<open>_create_package_file\<close> inlined. A file name
  that is no string has no \<^verbatim>\<open>replace\<close>. The package file is written before the package
  is created, so it stays when the creation fails.
\<close>

definition handle_packages ::
  "env \<Rightarrow> helper_state \<Rightarrow> string \<Rightarrow> jvalue \<Rightarrow> (exn + string) \<times> helper_state" where
  "handle_packages e st solr_filter_name filename =
     (case filename of
        JStr fname \<Rightarrow>
          (let p_name = map (\<lambda>c. if c = CHR ''/'' \<or> c = CHR ''.'' \<or> c = CHR ''_''
                                   then CHR ''-'' else c) fname;
               pkg_name = lower (''p-'' @ collection e @ ''-'' @ p_name);
               package_file = opensearch_package_dir e @ ''/'' @ pkg_name;
               package_key = solr_filter_name @ ''_'' @ package_file
           in case packages_map st package_key of
                Some entry \<Rightarrow> (Inr (filter_attrib_value entry), st)
              | None \<Rightarrow>
                  (case get_file_data e solr_filter_name filename of
                     Inl x \<Rightarrow> (Inl x, st)
                   | Inr file_data \<Rightarrow>
                       (let st1 = st\<lparr>effects :=
                                     effects st @ [WritePackageFile package_file file_data]\<rparr>;
                            st2 = st1\<lparr>effects :=
                                     effects st1 @ [CreateAndAssociatePackage pkg_name package_file]\<rparr>
                        in case create_and_associate_package e pkg_name package_file of
                             Inl x \<Rightarrow> (Inl x, st2)
                           | Inr package_id \<Rightarrow>
                               (let v = ''analyzers/'' @ package_id
                                in (Inr v,
                                    st2\<lparr>packages_map := (packages_map st2)(package_key \<mapsto>
                                      \<lparr>package_name = pkg_name,
                                       package_attrib = solr_filter_name,
                                       filter_attrib_value = v\<rparr>)\<rparr>)))))
      | _ \<Rightarrow> (Inl (AttributeError ''object has no attribute replace''), st))"

subsection \<open>Filters and char filters\<close>

text \<open>
  \<^verbatim>\<open>_process_filter_mapping_key\<close> and \<^verbatim>\<open>_process_char_filter_mapping_key\<close> differ in the
  prefix of the package attribute only (\<^verbatim>\<open>filter_\<close> and \<^verbatim>\<open>char_filter\<close>), which is the
  first argument here. The result is the definition dictionary with the key set.
\<close>

definition process_mapping_key ::
  "string \<Rightarrow> env \<Rightarrow> helper_state \<Rightarrow> string \<times> rule \<Rightarrow> attrs \<Rightarrow> attrs \<Rightarrow> string
     \<Rightarrow> (exn + attrs) \<times> helper_state" where
  "process_mapping_key pfx e st kr solr_filter custom_filter_def solr_filter_name =
     (case snd kr of
        ValueFrom a d \<Rightarrow>
          (Inr (dict_set custom_filter_def (fst kr)
                  (case py_get solr_filter a of JNull \<Rightarrow> d | v \<Rightarrow> v)), st)
      | ValueFromFile a cp d \<Rightarrow>
          (let filename = py_get solr_filter a
           in if cp \<noteq> None \<and> create_package (config e) then
                (case handle_packages e st (pfx @ solr_filter_name) filename of
                   (Inl x, st') \<Rightarrow> (Inl x, st')
                 | (Inr v, st') \<Rightarrow> (Inr (dict_set custom_filter_def (fst kr) (JStr v)), st'))
              else if expand_files_array (config e) then
                (case get_file_data e solr_filter_name filename of
                   Inl x \<Rightarrow> (Inl x, st)
                 | Inr file_data \<Rightarrow>
                     (Inr (dict_set custom_filter_def (fst kr) (JList (map JStr file_data))), st))
              else (Inr (dict_set custom_filter_def (fst kr) (JList [])), st))
      | Default d \<Rightarrow> (Inr (dict_set custom_filter_def (fst kr) d), st))"

definition process_filter_mapping_key ::
  "env \<Rightarrow> helper_state \<Rightarrow> string \<times> rule \<Rightarrow> attrs \<Rightarrow> attrs \<Rightarrow> string
     \<Rightarrow> (exn + attrs) \<times> helper_state" where
  "process_filter_mapping_key = process_mapping_key ''filter_''"

definition process_char_filter_mapping_key ::
  "env \<Rightarrow> helper_state \<Rightarrow> string \<times> rule \<Rightarrow> attrs \<Rightarrow> attrs \<Rightarrow> string
     \<Rightarrow> (exn + attrs) \<times> helper_state" where
  "process_char_filter_mapping_key = process_mapping_key ''char_filter''"

text \<open>
  The loop \<^verbatim>\<open>for key in filter_mapping.keys()\<close> over the rules of one table entry (the
  key \<^verbatim>\<open>type\<close> is skipped by the loop and is not among \<open>tattrs\<close>); the first exception
  ends it.
\<close>

fun process_keys ::
  "(env \<Rightarrow> helper_state \<Rightarrow> string \<times> rule \<Rightarrow> attrs \<Rightarrow> attrs \<Rightarrow> string
      \<Rightarrow> (exn + attrs) \<times> helper_state)
   \<Rightarrow> env \<Rightarrow> helper_state \<Rightarrow> (string \<times> rule) list \<Rightarrow> attrs \<Rightarrow> attrs \<Rightarrow> string
   \<Rightarrow> (exn + attrs) \<times> helper_state" where
  "process_keys step e st [] solr_filter custom_filter_def nm = (Inr custom_filter_def, st)"
| "process_keys step e st (kr # krs) solr_filter custom_filter_def nm =
     (case step e st kr solr_filter custom_filter_def nm of
        (Inl x, st') \<Rightarrow> (Inl x, st')
      | (Inr d, st') \<Rightarrow> process_keys step e st' krs solr_filter d nm)"

text \<open>
  The \<^verbatim>\<open>except\<close> clauses of \<^verbatim>\<open>_map_filter\<close>: its own exception is raised again, an
  \<^verbatim>\<open>OpenSearchMappingException\<close> is wrapped, anything else passes through.
\<close>

fun filter_except :: "string \<Rightarrow> exn \<Rightarrow> exn" where
  "filter_except nm (FilterMappingException n m) = FilterMappingException n m"
| "filter_except nm (OpenSearchMappingException n m) = FilterMappingException nm m"
| "filter_except nm x = x"

fun char_filter_except :: "string \<Rightarrow> exn \<Rightarrow> exn" where
  "char_filter_except nm (OpenSearchMappingException n m) = CharFilterMappingException nm m"
| "char_filter_except nm x = x"

text \<open>\<^verbatim>\<open>FilterHelper._map_filter\<close>. The name is resolved before the \<^verbatim>\<open>try\<close>.\<close>

definition map_filter ::
  "env \<Rightarrow> helper_state \<Rightarrow> attrs \<Rightarrow> (exn + construct) \<times> helper_state" where
  "map_filter e st solr_filter =
     (case get_filter_name solr_filter of
        Inl x \<Rightarrow> (Inl x, st)
      | Inr solr_filter_name \<Rightarrow>
          (let hashed_solr_filter_name = solr_filter_name @ get_hash e solr_filter
           in case filter_mapping e solr_filter_name of
                None \<Rightarrow> (Inl (FilterMappingException solr_filter_name MAPPING_NOT_FOUND), st)
              | Some fm \<Rightarrow>
                  (case filter_map st hashed_solr_filter_name of
                     Some tf \<Rightarrow> (Inr tf, st)
                   | None \<Rightarrow>
                       (case process_keys process_filter_mapping_key e st (tattrs fm)
                               solr_filter [] solr_filter_name of
                          (Inl x, st') \<Rightarrow> (Inl (filter_except solr_filter_name x), st')
                        | (Inr custom_filter_def, st') \<Rightarrow>
                            (let tf = Construct TokenFilter hashed_solr_filter_name (ttype fm)
                                        custom_filter_def
                             in (Inr tf,
                                 st'\<lparr>filter_map :=
                                       (filter_map st')(hashed_solr_filter_name \<mapsto> tf)\<rparr>))))))"

text \<open>
  \<^verbatim>\<open>FilterHelper._map_char_filter\<close>: no cache lookup; the name is extended by the hash of
  the resolved definition, and the definition itself is stored in \<^verbatim>\<open>_filter_map\<close>.
\<close>

definition map_char_filter ::
  "env \<Rightarrow> helper_state \<Rightarrow> attrs \<Rightarrow> (exn + construct) \<times> helper_state" where
  "map_char_filter e st solr_char_filter =
     (case get_filter_name solr_char_filter of
        Inl x \<Rightarrow> (Inl x, st)
      | Inr solr_filter_name \<Rightarrow>
          (case char_filter_mapping e solr_filter_name of
             None \<Rightarrow> (Inl (CharFilterMappingException solr_filter_name MAPPING_NOT_FOUND), st)
           | Some cfm \<Rightarrow>
               (case process_keys process_char_filter_mapping_key e st (tattrs cfm)
                       solr_char_filter [] solr_filter_name of
                  (Inl x, st') \<Rightarrow> (Inl (char_filter_except solr_filter_name x), st')
                | (Inr custom_filter_def, st') \<Rightarrow>
                    (let hashed = solr_filter_name @ get_hash e custom_filter_def
                     in (Inr (Construct CharFilter hashed (ttype cfm) custom_filter_def),
                         st'\<lparr>filter_map :=
                               (filter_map st')(hashed \<mapsto> RawDef custom_filter_def)\<rparr>)))))"

text \<open>
  Phase 1 of \<^verbatim>\<open>map_filters\<close> and of \<^verbatim>\<open>map_char_filters\<close>: the first element whose name
  cannot be resolved or has no table entry ends the scan with its exception. The scan
  takes no state and returns none.
\<close>

fun pre_check :: "(string \<rightharpoonup> target_spec) \<Rightarrow> (string \<Rightarrow> exn) \<Rightarrow> attrs list \<Rightarrow> exn option" where
  "pre_check table not_found [] = None"
| "pre_check table not_found (f # fs) =
     (case get_filter_name f of
        Inl x \<Rightarrow> Some x
      | Inr nm \<Rightarrow>
          (case table nm of
             None \<Rightarrow> Some (not_found nm)
           | Some _ \<Rightarrow> pre_check table not_found fs))"

text \<open>Phase 2: every element in order, appended to the result; the first exception ends it.\<close>

fun map_each ::
  "(env \<Rightarrow> helper_state \<Rightarrow> attrs \<Rightarrow> (exn + construct) \<times> helper_state)
   \<Rightarrow> env \<Rightarrow> helper_state \<Rightarrow> attrs list \<Rightarrow> construct list
   \<Rightarrow> (exn + construct list) \<times> helper_state" where
  "map_each m e st [] acc = (Inr acc, st)"
| "map_each m e st (f # fs) acc =
     (case m e st f of
        (Inl x, st') \<Rightarrow> (Inl x, st')
      | (Inr c, st') \<Rightarrow> map_each m e st' fs (acc @ [c]))"

text \<open>\<^verbatim>\<open>FilterHelper.map_filters\<close>.\<close>

definition map_filters ::
  "env \<Rightarrow> helper_state \<Rightarrow> attrs list \<Rightarrow> (exn + construct list) \<times> helper_state" where
  "map_filters e st solr_filters =
     (case pre_check (filter_mapping e)
             (\<lambda>nm. FilterMappingException nm MAPPING_NOT_FOUND) solr_filters of
        Some x \<Rightarrow> (Inl x, st)
      | None \<Rightarrow> map_each map_filter e st solr_filters [])"

text \<open>\<^verbatim>\<open>FilterHelper.map_char_filters\<close>.\<close>

definition map_char_filters ::
  "env \<Rightarrow> helper_state \<Rightarrow> attrs list \<Rightarrow> (exn + construct list) \<times> helper_state" where
  "map_char_filters e st solr_char_filters =
     (case pre_check (char_filter_mapping e)
             (\<lambda>nm. CharFilterMappingException nm MAPPING_NOT_FOUND) solr_char_filters of
        Some x \<Rightarrow> (Inl x, st)
      | None \<Rightarrow> map_each map_char_filter e st solr_char_filters [])"

subsection \<open>Tokenizers\<close>



section \<open>Analyzers and field types\<close>

text \<open>
  The analyzer sub-configuration of a field type, and the field type itself, as the
  Schema API delivers them: \<^verbatim>\<open>name\<close> and \<^verbatim>\<open>class\<close> are strings, each of
  \<^verbatim>\<open>tokenizer\<close>, \<^verbatim>\<open>filters\<close>, \<^verbatim>\<open>charFilters\<close>, \<^verbatim>\<open>analyzer\<close>, \<^verbatim>\<open>indexAnalyzer\<close> and
  \<^verbatim>\<open>queryAnalyzer\<close> may be absent.
\<close>

record solr_analyzer =
  tokenizer :: "attrs option"
  filters :: "attrs list option"
  charFilters :: "attrs list option"

record solr_field_type =
  ft_name :: string
  ft_class :: string
  analyzer :: "solr_analyzer option"
  indexAnalyzer :: "solr_analyzer option"
  queryAnalyzer :: "solr_analyzer option"

text \<open>The object built by \<^verbatim>\<open>opensearchpy.analyzer\<close>.\<close>

record os_analyzer =
  analyzer_name :: string
  mapped_tokenizer :: "construct option"
  mapped_filters :: "construct list"
  mapped_char_filters :: "construct list"













text \<open>\<^verbatim>\<open>FieldTypeHelper.get_field_type\<close>: \<^verbatim>\<open>None\<close> for an unbound name and for a name bound to \<^verbatim>\<open>None\<close>.\<close>

definition get_field_type :: "helper_state \<Rightarrow> string \<Rightarrow> string option" where
  "get_field_type st field_type =
     (case field_types_map st field_type of None \<Rightarrow> None | Some t \<Rightarrow> t)"


section \<open>The target index\<close>

text \<open>
  The part of \<^verbatim>\<open>OpenSearchClient\<close> that the mappers use: the analyzers, the properties (fields) of
  the mapping and the dynamic templates registered so far. \<^verbatim>\<open>get_all_analyzers()\<close> is a
  dictionary keyed by analyzer name, of which the mappers test membership only.
\<close>

record dynamic_template =
  pattern :: string
  match :: string
  mapping :: attrs

record os_index =
  analyzers :: "os_analyzer list"
  properties :: "(string \<times> attrs) list"
  dynamic_templates :: "dynamic_template list"

definition init_index :: os_index where
  "init_index = \<lparr>analyzers = [], properties = [], dynamic_templates = []\<rparr>"


definition add_field :: "os_index \<Rightarrow> string \<Rightarrow> attrs \<Rightarrow> os_index" where
  "add_field ix name field = ix\<lparr>properties := dict_set (properties ix) name field\<rparr>"


definition get_all_analyzers :: "os_index \<Rightarrow> string set" where
  "get_all_analyzers ix = analyzer_name ` set (analyzers ix)"


section \<open>Fields, dynamic fields and copy fields\<close>

text \<open>
  A field and a dynamic field of the source schema: \<^verbatim>\<open>name\<close> and \<^verbatim>\<open>type\<close> are strings;
  \<open>fitems\<close> is the whole dictionary, these two keys included, in iteration order.
\<close>

record solr_field =
  fname :: string
  ftype :: string
  fitems :: attrs

text \<open>\<^verbatim>\<open>d.pop(k, None)\<close>.\<close>

definition dict_pop :: "('k \<times> 'v) list \<Rightarrow> 'k \<Rightarrow> ('k \<times> 'v) list" where
  "dict_pop d k = filter (\<lambda>kv. fst kv \<noteq> k) d"

text \<open>
  The dictionary comprehension of \<^verbatim>\<open>map_field\<close> and the loop of \<^verbatim>\<open>map_dynamic_field\<close>
  that project the known source attributes onto their target names.
\<close>

fun project_attrs :: "(string \<times> string) list \<Rightarrow> attrs \<Rightarrow> attrs \<Rightarrow> attrs" where
  "project_attrs am [] acc = acc"
| "project_attrs am (kv # kvs) acc =
     project_attrs am kvs
       (case map_of am (fst kv) of
          None \<Rightarrow> acc
        | Some k' \<Rightarrow> dict_set acc k' (snd kv))"

text \<open>
  \<^verbatim>\<open>FieldHelper._setup_analyzers\<close>. \<^verbatim>\<open>if analyzer:\<close> tests the name for truth, so an
  empty name attaches nothing.
\<close>

definition setup_analyzers :: "os_index \<Rightarrow> attrs \<Rightarrow> string \<Rightarrow> attrs" where
  "setup_analyzers ix attrs0 field_field_type =
     (let all_analyzers = get_all_analyzers ix;
          a = (if field_field_type \<in> all_analyzers then Some field_field_type else None);
          index_analyzer = (if field_field_type @ ''_index'' \<in> all_analyzers
                            then Some (field_field_type @ ''_index'') else None);
          query_analyzer = (if field_field_type @ ''_query'' \<in> all_analyzers
                            then Some (field_field_type @ ''_query'') else None);
          attrs1 = (case a of
                      Some n \<Rightarrow> if n \<noteq> [] then dict_set attrs0 ''analyzer'' (JStr n) else attrs0
                    | None \<Rightarrow> attrs0);
          attrs2 = (case index_analyzer of
                      Some n \<Rightarrow> dict_set attrs1 ''analyzer'' (JStr n)
                    | None \<Rightarrow> attrs1)
      in case query_analyzer of
           Some n \<Rightarrow> dict_set attrs2 ''search_analyzer'' (JStr n)
         | None \<Rightarrow> attrs2)"

text \<open>\<^verbatim>\<open>FieldHelper._cleanup_field_attrs\<close>.\<close>

definition cleanup_field_attrs :: "attrs \<Rightarrow> string \<Rightarrow> attrs" where
  "cleanup_field_attrs attrs0 field_type =
     (let attrs1 = (if field_type = ''nested'' \<or> field_type = ''geo_shape''
                    then dict_pop (dict_pop attrs0 ''index'') ''store'' else attrs0)
      in if field_type = ''geo_shape'' then dict_pop attrs1 ''doc_values'' else attrs1)"

text \<open>
  \<^verbatim>\<open>FieldHelper.map_field\<close>. Nothing inside its \<^verbatim>\<open>try\<close> raises on dictionaries, so the
  only exception is the one for a type without binding.
\<close>

definition map_field ::
  "env \<Rightarrow> helper_state \<Rightarrow> os_index \<Rightarrow> solr_field \<Rightarrow> exn + string \<times> attrs" where
  "map_field e st ix solr_field =
     (let name = fname solr_field;
          field_field_type = ftype solr_field
      in case get_field_type st field_field_type of
           None \<Rightarrow> Inl (FieldMappingException name MAPPING_NOT_FOUND (Some (ftype solr_field)))
         | Some field_type \<Rightarrow>
             (let attrs0 = project_attrs (attributes_mapping e) (fitems solr_field) [];
                  attrs1 = dict_set attrs0 ''type'' (JStr field_type);
                  attrs2 = setup_analyzers ix attrs1 field_field_type
              in Inr (name, cleanup_field_attrs attrs2 field_type)))"

text \<open>
  \<^verbatim>\<open>DynamicFieldHelper.map_dynamic_field\<close>. The analyzer attribute is the bare type name
  when the type or its \<^verbatim>\<open>_index\<close> name is registered; the search analyzer is looked up
  and attached under the type name followed by \<^verbatim>\<open>s_query\<close>. \<^verbatim>\<open>if index_analyzer:\<close>
  tests the name for truth.
\<close>

definition map_dynamic_field ::
  "env \<Rightarrow> helper_state \<Rightarrow> os_index \<Rightarrow> solr_field \<Rightarrow> exn + dynamic_template" where
  "map_dynamic_field e st ix solr_dynamic_field =
     (let pat = fname solr_dynamic_field;
          field_type = ftype solr_dynamic_field
      in case get_field_type st field_type of
           None \<Rightarrow> Inl (DynamicFieldMappingException pat MAPPING_NOT_FOUND (Some field_type))
         | Some dynamic_field_type \<Rightarrow>
             (let attrs0 = project_attrs (attributes_mapping e) (fitems solr_dynamic_field) [];
                  index_analyzer =
                    (if field_type @ ''_index'' \<in> get_all_analyzers ix
                        \<or> field_type \<in> get_all_analyzers ix
                     then Some field_type else None);
                  query_analyzer =
                    (if field_type @ ''s_query'' \<in> get_all_analyzers ix
                     then Some (field_type @ ''s_query'') else None);
                  mapping0 = fold (\<lambda>kv m. dict_set m (fst kv) (snd kv)) attrs0
                               [(''type'', JStr dynamic_field_type)];
                  mapping1 = (case index_analyzer of
                                Some n \<Rightarrow> if n \<noteq> [] then dict_set mapping0 ''analyzer'' (JStr n)
                                          else mapping0
                              | None \<Rightarrow> mapping0);
                  mapping2 = (case query_analyzer of
                                Some n \<Rightarrow> dict_set mapping1 ''search_analyzer'' (JStr n)
                              | None \<Rightarrow> mapping1)
              in Inr \<lparr>pattern = pat, match = pat, mapping = mapping2\<rparr>))"

text \<open>
  \<^verbatim>\<open>CopyFieldHelper\<close>: the field definitions handed to the constructor, which
  \<^verbatim>\<open>map_copy_field\<close> changes in place, and the destinations recorded per source.
\<close>

record solr_copy_field =
  source :: string
  dest :: string

record copy_field_helper =
  all_fields :: "string \<rightharpoonup> attrs"
  field_copy_to :: "string \<rightharpoonup> string list"

definition CopyFieldHelper :: "(string \<rightharpoonup> attrs) \<Rightarrow> copy_field_helper" where
  "CopyFieldHelper fs = \<lparr>all_fields = fs, field_copy_to = Map.empty\<rparr>"

text \<open>
  \<^verbatim>\<open>CopyFieldHelper.map_copy_field\<close>; the result is \<^verbatim>\<open>(src, src_def, dst, dst_def)\<close>.
  The definitions are shared objects: the change of \<^verbatim>\<open>src_def\<close> is a change of the entry
  of \<^verbatim>\<open>_all_fields\<close>, and of \<^verbatim>\<open>dst_def\<close> too when source and destination are the same field.
\<close>

definition map_copy_field ::
  "copy_field_helper \<Rightarrow> solr_copy_field
     \<Rightarrow> (exn + string \<times> attrs \<times> string \<times> attrs) \<times> copy_field_helper" where
  "map_copy_field h solr_copy_field =
     (let src = source solr_copy_field;
          dst = dest solr_copy_field
      in case (all_fields h src, all_fields h dst) of
           (Some src_def, Some dst_def) \<Rightarrow>
             (let (copy_to, src_def') =
                    (case field_copy_to h src of
                       None \<Rightarrow> ([dst], dict_set src_def ''copy_to'' (JStr dst))
                     | Some ds \<Rightarrow>
                         (ds @ [dst],
                          (case map_of src_def ''copy_to'' of
                             Some (JList l) \<Rightarrow> dict_set src_def ''copy_to'' (JList (l @ [JStr dst]))
                           | Some v \<Rightarrow> dict_set src_def ''copy_to'' (JList [v, JStr dst])
                           | None \<Rightarrow> dict_set src_def ''copy_to'' (JList [JStr dst]))));
                  h' = h\<lparr>all_fields := (all_fields h)(src \<mapsto> src_def'),
                         field_copy_to := (field_copy_to h)(src \<mapsto> copy_to)\<rparr>
              in (Inr (src, src_def', dst, if dst = src then src_def' else dst_def), h'))
         | _ \<Rightarrow> (Inl (CopyFieldMappingException src MAPPING_NOT_FOUND (Some src)), h))"

section \<open>The migration report\<close>

text \<open>
  \<^verbatim>\<open>reports/report.py\<close>: the counters (attempted \<open>_solr\<close>, succeeded \<open>_os\<close>, failed
  \<open>_error\<close>), the exception lists and the per-construct detail records. A detail's name
  is whatever \<^verbatim>\<open>cfg.get('name') or ...\<close> yields, hence a JSON value.
\<close>

record detail =
  d_name :: jvalue
  d_solr_type :: jvalue
  d_opensearch_type :: string
  d_status :: string
  d_error :: "string option"

record migration_report =
  field_types_solr :: nat
  field_types_os :: nat
  field_types_error :: nat
  field_solr :: nat
  field_os :: nat
  field_error :: nat
  dynamic_field_solr :: nat
  dynamic_field_os :: nat
  dynamic_field_error :: nat
  copy_field_solr :: nat
  copy_field_os :: nat
  copy_field_error :: nat
  data_migration_enabled :: bool
  data_migration_docs_total :: int
  data_migration_docs_exported :: int
  data_migration_batches :: int
  data_migration_errors :: nat
  field_type_exception_list :: "exn list"
  field_exception_list :: "exn list"
  dynamic_field_exception_list :: "exn list"
  copy_field_exception_list :: "exn list"
  data_migration_error_list :: "string list"
  tokenizer_details :: "detail list"
  filter_details :: "detail list"
  char_filter_details :: "detail list"

text \<open>\<^verbatim>\<open>Report.__init__\<close>.\<close>

definition Report :: migration_report where
  "Report =
     \<lparr>field_types_solr = 0, field_types_os = 0, field_types_error = 0,
      field_solr = 0, field_os = 0, field_error = 0,
      dynamic_field_solr = 0, dynamic_field_os = 0, dynamic_field_error = 0,
      copy_field_solr = 0, copy_field_os = 0, copy_field_error = 0,
      data_migration_enabled = False, data_migration_docs_total = 0,
      data_migration_docs_exported = 0, data_migration_batches = 0,
      data_migration_errors = 0,
      field_type_exception_list = [], field_exception_list = [],
      dynamic_field_exception_list = [], copy_field_exception_list = [],
      data_migration_error_list = [],
      tokenizer_details = [], filter_details = [], char_filter_details = []\<rparr>"

definition add_data_migration_error :: "migration_report \<Rightarrow> string \<Rightarrow> migration_report" where
  "add_data_migration_error r error_msg =
     r\<lparr>data_migration_errors := data_migration_errors r + 1,
       data_migration_error_list := data_migration_error_list r @ [error_msg]\<rparr>"

definition update_data_migration_stats ::
  "migration_report \<Rightarrow> bool \<Rightarrow> int \<Rightarrow> int \<Rightarrow> int \<Rightarrow> migration_report" where
  "update_data_migration_stats r enabled total_docs exported batches =
     r\<lparr>data_migration_enabled := enabled, data_migration_docs_total := total_docs,
       data_migration_docs_exported := exported, data_migration_batches := batches\<rparr>"

definition add_tokenizer_detail ::
  "migration_report \<Rightarrow> jvalue \<Rightarrow> jvalue \<Rightarrow> string \<Rightarrow> string \<Rightarrow> string option
     \<Rightarrow> migration_report" where
  "add_tokenizer_detail r name solr_type opensearch_type status err =
     r\<lparr>tokenizer_details := tokenizer_details r @
         [\<lparr>d_name = name, d_solr_type = solr_type, d_opensearch_type = opensearch_type,
           d_status = status, d_error = err\<rparr>]\<rparr>"

definition add_filter_detail ::
  "migration_report \<Rightarrow> jvalue \<Rightarrow> jvalue \<Rightarrow> string \<Rightarrow> string \<Rightarrow> string option
     \<Rightarrow> migration_report" where
  "add_filter_detail r name solr_type opensearch_type status err =
     r\<lparr>filter_details := filter_details r @
         [\<lparr>d_name = name, d_solr_type = solr_type, d_opensearch_type = opensearch_type,
           d_status = status, d_error = err\<rparr>]\<rparr>"

definition add_char_filter_detail ::
  "migration_report \<Rightarrow> jvalue \<Rightarrow> jvalue \<Rightarrow> string \<Rightarrow> string \<Rightarrow> string option
     \<Rightarrow> migration_report" where
  "add_char_filter_detail r name solr_type opensearch_type status err =
     r\<lparr>char_filter_details := char_filter_details r @
         [\<lparr>d_name = name, d_solr_type = solr_type, d_opensearch_type = opensearch_type,
           d_status = status, d_error = err\<rparr>]\<rparr>"

section \<open>The orchestration loops\<close>







text \<open>\<^verbatim>\<open>getattr(x, 'name', 'unknown')\<close>.\<close>

fun exn_name :: "exn \<Rightarrow> jvalue" where
  "exn_name (OpenSearchMappingException n m) = (case n of None \<Rightarrow> JNull | Some s \<Rightarrow> JStr s)"
| "exn_name (TokenizerMappingException n m) = JStr n"
| "exn_name (FilterMappingException n m) = JStr n"
| "exn_name (CharFilterMappingException n m) = JStr n"
| "exn_name (AnalyzerMappingException n f t c) = JStr n"
| "exn_name (FieldTypeMappingException n m a) = JStr n"
| "exn_name (FieldMappingException n m t) = JStr n"
| "exn_name (DynamicFieldMappingException n m t) = JStr n"
| "exn_name (CopyFieldMappingException n m s) = JStr n"
| "exn_name x = JStr ''unknown''"

text \<open>
  The error tracking of \<^verbatim>\<open>_migrate_field_types\<close>: the sub-exceptions of the analyzer
  exception carried by the field-type exception, tokenizer first.
\<close>

fun track_errors :: "migration_report \<Rightarrow> exn \<Rightarrow> migration_report" where
  "track_errors r (FieldTypeMappingException n m (Some (AnalyzerMappingException an fe te ce))) =
     (let r1 = (case te of
                  None \<Rightarrow> r
                | Some x \<Rightarrow> add_tokenizer_detail r (exn_name x) (exn_name x) ''N/A'' ''error''
                              (Some (exn_str x)));
          r2 = (case fe of
                  None \<Rightarrow> r1
                | Some x \<Rightarrow> add_filter_detail r1 (exn_name x) (exn_name x) ''N/A'' ''error''
                              (Some (exn_str x)))
      in case ce of
           None \<Rightarrow> r2
         | Some x \<Rightarrow> add_char_filter_detail r2 (exn_name x) (exn_name x) ''N/A'' ''error''
                       (Some (exn_str x)))"
| "track_errors r x = r"

text \<open>
  The state of \<^verbatim>\<open>Solr2OSMigrate\<close>: the helpers, the client that holds the target index,
  the report.
\<close>

record migrate_state =
  services :: helper_state
  client :: os_index
  report :: migration_report

definition init_migrate_state :: migrate_state where
  "init_migrate_state = \<lparr>services = init_helper_state, client = init_index, report = Report\<rparr>"

record schema =
  fieldTypes :: "solr_field_type list"
  schema_fields :: "solr_field list"
  dynamicFields :: "solr_field list"
  copyFields :: "solr_copy_field list"


text \<open>A loop over the items of one category: an exception that leaves an iteration ends it.\<close>

fun for_each ::
  "('s \<Rightarrow> 'a \<Rightarrow> exn option \<times> 's) \<Rightarrow> 's \<Rightarrow> 'a list \<Rightarrow> exn option \<times> 's" where
  "for_each body s [] = (None, s)"
| "for_each body s (x # xs) =
     (case body s x of
        (Some err, s') \<Rightarrow> (Some err, s')
      | (None, s') \<Rightarrow> for_each body s' xs)"






text \<open>
  One iteration of \<^verbatim>\<open>_migrate_copy_fields\<close>, on the copy-field helper and the migration
  state: every exception is caught.
\<close>

definition migrate_copy_field ::
  "copy_field_helper \<times> migrate_state \<Rightarrow> solr_copy_field
     \<Rightarrow> exn option \<times> copy_field_helper \<times> migrate_state" where
  "migrate_copy_field hs solr_copy_field =
     (let h = fst hs; ms = snd hs;
          r1 = (report ms)\<lparr>copy_field_solr := copy_field_solr (report ms) + 1\<rparr>
      in case map_copy_field h solr_copy_field of
           (Inr (src, src_def, dst, dst_def), h') \<Rightarrow>
             (None, h',
              ms\<lparr>client := add_field (add_field (client ms) src src_def) dst dst_def,
                 report := r1\<lparr>copy_field_os := copy_field_os r1 + 1\<rparr>\<rparr>)
         | (Inl x, h') \<Rightarrow>
             (None, h',
              ms\<lparr>report := r1\<lparr>copy_field_exception_list := copy_field_exception_list r1 @ [x],
                               copy_field_error := copy_field_error r1 + 1\<rparr>\<rparr>))"



section \<open>Data export\<close>

subsection \<open>Repair of unquoted binary values\<close>

text \<open>
  \<^verbatim>\<open>Solr2OSMigrate._get_binary_fields\<close>: the names of the fields whose type is a field
  type with a class ending in \<^verbatim>\<open>BinaryField\<close> (the type's name, or its class when the name
  is empty).
\<close>

definition get_binary_fields :: "schema \<Rightarrow> string list" where
  "get_binary_fields sch =
     (let binary_field_types =
            map (\<lambda>ft. if ft_name ft \<noteq> [] then ft_name ft else ft_class ft)
              (filter (\<lambda>ft. suffix ''BinaryField'' (ft_class ft)) (fieldTypes sch))
      in map fname
           (filter (\<lambda>f. ftype f \<in> set binary_field_types \<and> fname f \<noteq> [])
              (schema_fields sch)))"

text \<open>
  \<^verbatim>\<open>_fix_binary_fields_in_json\<close> builds, for each field, the regular expression
  \<^verbatim>\<open>"{field}":([^",:}\s]+)\<close> with the field name pasted in as it is, and replaces each
  match by \<^verbatim>\<open>"{field}":"\1"\<close>. The model reads a name as a regular expression as far as
  this: a dot matches every character but the newline, every other character matches
  itself. That is what \<^verbatim>\<open>re\<close> does for the names \<open>regex_plain\<close> accepts, the names free of
  the other special characters of \<^verbatim>\<open>re\<close>; the model says nothing about other names.
\<close>

definition regex_plain :: "string \<Rightarrow> bool" where
  "regex_plain f = (\<forall>c \<in> set f. c \<notin> set (CHR 0x5C # ''^$*+?{}[]|()''))"

definition atom_match :: "char \<Rightarrow> char \<Rightarrow> bool" where
  "atom_match p c = (if p = CHR ''.'' then c \<noteq> CHR 0x0A else c = p)"

text \<open>The text left after a prefix that the pattern characters match one by one.\<close>

fun match_prefix :: "string \<Rightarrow> string \<Rightarrow> string option" where
  "match_prefix [] t = Some t"
| "match_prefix (p # ps) [] = None"
| "match_prefix (p # ps) (c # cs) = (if atom_match p c then match_prefix ps cs else None)"

text \<open>The class \<^verbatim>\<open>[^",:}\s]\<close>.\<close>

definition value_char :: "char \<Rightarrow> bool" where
  "value_char c =
     (c \<noteq> CHR 0x22 \<and> c \<noteq> CHR '','' \<and> c \<noteq> CHR '':'' \<and> c \<noteq> CHR ''}'' \<and> \<not> is_space c)"

text \<open>
  \<^verbatim>\<open>re.sub(pattern, replacement, response_text)\<close> for one field: the text is scanned from
  the left; where the key matches and at least one value character follows, the longest
  run of value characters is put between quotes under the field's name, and the scan
  goes on behind the run.
\<close>

function sub_field :: "string \<Rightarrow> string \<Rightarrow> string" where
  "sub_field f [] = []"
| "sub_field f (c # cs) =
     (case match_prefix ([CHR 0x22] @ f @ [CHR 0x22, CHR '':'']) (c # cs) of
        Some rest \<Rightarrow>
          (if takeWhile value_char rest \<noteq> []
           then [CHR 0x22] @ f @ [CHR 0x22, CHR '':'', CHR 0x22] @ takeWhile value_char rest
                  @ [CHR 0x22] @ sub_field f (dropWhile value_char rest)
           else c # sub_field f cs)
      | None \<Rightarrow> c # sub_field f cs)"
  by pat_completeness auto
termination
proof (relation "measure (\<lambda>(f, t). length t)")
  show "wf (measure (\<lambda>(f, t). length t))" by simp
next
  fix f :: string and c :: char and cs rest :: string
  have le: "length r \<le> length t" if "match_prefix ps t = Some r" for ps t r
    using that by (induction ps t rule: match_prefix.induct) (auto split: if_splits)
  assume "match_prefix ([CHR 0x22] @ f @ [CHR 0x22, CHR '':'']) (c # cs) = Some rest"
  then have "match_prefix (f @ [CHR 0x22, CHR '':'']) cs = Some rest"
    by (simp split: if_splits)
  then have "length rest \<le> length cs" by (rule le)
  moreover have "length (dropWhile value_char rest) \<le> length rest"
    by (rule length_dropWhile_le)
  ultimately show "((f, dropWhile value_char rest), (f, c # cs)) \<in> measure (\<lambda>(f, t). length t)"
    by simp
next
  fix f :: string and c :: char and cs rest :: string
  show "((f, cs), (f, c # cs)) \<in> measure (\<lambda>(f, t). length t)" by simp
next
  fix f :: string and c :: char and cs :: string
  show "((f, cs), (f, c # cs)) \<in> measure (\<lambda>(f, t). length t)" by simp
qed

text \<open>\<^verbatim>\<open>Solr2OSMigrate._fix_binary_fields_in_json\<close>: the fields in their order.\<close>

definition fix_binary_fields_in_json :: "string \<Rightarrow> string list \<Rightarrow> string" where
  "fix_binary_fields_in_json response_text binary_fields =
     foldl (\<lambda>t f. sub_field f t) response_text binary_fields"

subsection \<open>Pagination\<close>

text \<open>
  A parsed page: the documents under \<^verbatim>\<open>response.docs\<close> and \<^verbatim>\<open>nextCursorMark\<close> (absent:
  \<open>None\<close>), or a JSON value without \<^verbatim>\<open>response.docs\<close>, for which the subscript raises.
\<close>

datatype 'd page = Page "'d list" "string option" | Malformed string

text \<open>
  The collaborators of the export: the select endpoint of the source (asked with the
  number of the request, the cursor and the page size; \<open>Inl\<close> when the request raises or
  \<^verbatim>\<open>raise_for_status\<close> does), the count request (\<^verbatim>\<open>numFound\<close>), \<^verbatim>\<open>json.loads\<close> (\<open>Inl\<close> the
  message of its \<^verbatim>\<open>JSONDecodeError\<close>), and \<^verbatim>\<open>put_object\<close> of the object store (the
  exception it raises, if any). The configuration gives the page size, the row cap, the
  key prefix and the collection name.
\<close>

record 'd export_env =
  rows_per_page :: int
  max_rows :: int
  s3_prefix :: string
  solr_collection :: string
  binary_fields :: "string list"
  num_found :: "exn + int"
  solr_select :: "nat \<Rightarrow> string option \<Rightarrow> int \<Rightarrow> exn + string"
  json_loads :: "string \<Rightarrow> string + 'd page"
  put_object :: "string \<Rightarrow> 'd list \<Rightarrow> exn option"

text \<open>
  The variables of the loop of \<^verbatim>\<open>_export_regular_data\<close>, with the page requests issued
  (cursor and page size) and the objects stored so far.
\<close>

record 'd export_state =
  exported_docs :: nat
  batch_count :: nat
  cursor_mark :: "string option"
  page_requests :: "(string option \<times> int) list"
  stored :: "(string \<times> 'd list) list"
  export_report :: migration_report

text \<open>
  One iteration of the \<^verbatim>\<open>while\<close> loop; the flag tells whether the loop goes on to test
  its condition again (\<^verbatim>\<open>continue\<close> and the normal end of the body) or is left by a
  \<^verbatim>\<open>break\<close>.
\<close>

definition export_batch :: "'d export_env \<Rightarrow> 'd export_state \<Rightarrow> bool \<times> 'd export_state" where
  "export_batch E s =
     (let n = batch_count s + 1;
          s1 = s\<lparr>batch_count := n,
                 page_requests := page_requests s @ [(cursor_mark s, rows_per_page E)]\<rparr>;
          failed = (\<lambda>st msg. (False, st\<lparr>export_report :=
                      add_data_migration_error (export_report st)
                        (''Error processing batch '' @ str_nat n @ '': '' @ msg)\<rparr>))
      in case solr_select E n (cursor_mark s) (rows_per_page E) of
           Inl x \<Rightarrow> failed s1 (exn_str x)
         | Inr response_text \<Rightarrow>
             (case json_loads E (fix_binary_fields_in_json response_text (binary_fields E)) of
                Inl msg \<Rightarrow>
                  (True, s1\<lparr>export_report :=
                     add_data_migration_error (export_report s1)
                       (''JSON parsing error in batch '' @ str_nat n @ '': '' @ msg)\<rparr>)
              | Inr (Malformed msg) \<Rightarrow> failed s1 msg
              | Inr (Page docs next_cursor_mark) \<Rightarrow>
                  if docs = [] then (False, s1)
                  else
                    (let s3_key = s3_prefix E @ solr_collection E @ ''_batch_'' @ str_nat n
                                    @ ''.json''
                     in case put_object E s3_key docs of
                          Some x \<Rightarrow> failed s1 (exn_str x)
                        | None \<Rightarrow>
                            (let s2 = s1\<lparr>stored := stored s1 @ [(s3_key, docs)],
                                         exported_docs := exported_docs s1 + length docs\<rparr>
                             in if next_cursor_mark = cursor_mark s then (False, s2)
                                else (True, s2\<lparr>cursor_mark := next_cursor_mark\<rparr>)))))"

text \<open>
  The loop \<^verbatim>\<open>while exported_docs < min(total_docs, max_rows)\<close>. It need not end (a page
  that never parses is asked for again and again), so its result is an option.
\<close>

partial_function (option) export_loop ::
  "'d export_env \<Rightarrow> int \<Rightarrow> 'd export_state \<Rightarrow> 'd export_state option" where
  "export_loop E total_docs s =
     (if int (exported_docs s) < min total_docs (max_rows E)
      then (let r = export_batch E s
            in if fst r then export_loop E total_docs (snd r) else Some (snd r))
      else Some s)"

text \<open>
  \<^verbatim>\<open>Solr2OSMigrate._export_regular_data\<close>: the count request (an exception of which
  leaves the function), the loop, the final statistics.
\<close>

definition export_regular_data ::
  "'d export_env \<Rightarrow> migration_report \<Rightarrow> (exn + 'd export_state) option" where
  "export_regular_data E r =
     (case num_found E of
        Inl x \<Rightarrow> Some (Inl x)
      | Inr total_docs \<Rightarrow>
          (case export_loop E total_docs
                  \<lparr>exported_docs = 0, batch_count = 0, cursor_mark = Some ''*'',
                   page_requests = [], stored = [], export_report = r\<rparr> of
             None \<Rightarrow> None
           | Some s \<Rightarrow>
               Some (Inr (s\<lparr>export_report :=
                  update_data_migration_stats (export_report s) True total_docs
                    (int (exported_docs s)) (int (batch_count s))\<rparr>))))"

section \<open>The lookup name as the specification words it\<close>

text \<open>
  For comparison with \<open>get_filter_name\<close> and \<open>get_tokenizer_name\<close>, the lookup name in
  the words of the specification: the explicit name lowercased; otherwise the last
  dot-separated segment of the class name, with the factory suffix
  (\<^verbatim>\<open>TokenizerFactory\<close>, \<^verbatim>\<open>TokenFilterFactory\<close> or \<^verbatim>\<open>CharFilterFactory\<close>) stripped,
  lowercased.
\<close>

definition spec_strip_factory_suffix :: "string \<Rightarrow> string" where
  "spec_strip_factory_suffix s =
     (if suffix ''TokenizerFactory'' s then take (length s - length ''TokenizerFactory'') s
      else if suffix ''TokenFilterFactory'' s then take (length s - length ''TokenFilterFactory'') s
      else if suffix ''CharFilterFactory'' s then take (length s - length ''CharFilterFactory'') s
      else s)"

definition spec_lookup_name :: "attrs \<Rightarrow> string option" where
  "spec_lookup_name cfg =
     (case py_get cfg ''name'' of
        JStr n \<Rightarrow> Some (lower n)
      | JNull \<Rightarrow>
          (case py_get cfg ''class'' of
             JStr cls \<Rightarrow> Some (lower (spec_strip_factory_suffix (last (split_on (CHR ''.'') cls))))
           | _ \<Rightarrow> None)
      | _ \<Rightarrow> None)"

section \<open>The copy-to attribute as the specification words it\<close>

text \<open>
  The value of the copy-to attribute of a source field after its destinations \<open>ds\<close>, in
  the words of the specification: the scalar destination name after one destination, a
  flat list of all destinations after two or more.
\<close>

definition spec_copy_to :: "string list \<Rightarrow> jvalue" where
  "spec_copy_to ds = (case ds of [d] \<Rightarrow> JStr d | _ \<Rightarrow> JList (map JStr ds))"

text \<open>The destinations recorded for a source so far (none when the source has no entry).\<close>

definition destinations :: "copy_field_helper \<Rightarrow> string \<Rightarrow> string list" where
  "destinations h s = (case field_copy_to h s of None \<Rightarrow> [] | Some ds \<Rightarrow> ds)"

text \<open>The invariant that ties the recorded destinations to the copy-to attribute.\<close>

definition copy_inv :: "copy_field_helper \<Rightarrow> bool" where
  "copy_inv h \<longleftrightarrow>
     (\<forall>s ds. field_copy_to h s = Some ds \<longrightarrow>
        ds \<noteq> [] \<and> (\<exists>d. all_fields h s = Some d \<and> map_of d ''copy_to'' = Some (spec_copy_to ds)))"

section \<open>The accounting of the report\<close>

text \<open>
  The counters and the lengths of the exception lists of a report, category by category
  (attempted, succeeded, failed, exceptions recorded).
\<close>

definition counters :: "migration_report \<Rightarrow> nat list" where
  "counters r =
     [field_types_solr r, field_types_os r, field_types_error r,
      length (field_type_exception_list r),
      field_solr r, field_os r, field_error r, length (field_exception_list r),
      dynamic_field_solr r, dynamic_field_os r, dynamic_field_error r,
      length (dynamic_field_exception_list r),
      copy_field_solr r, copy_field_os r, copy_field_error r,
      length (copy_field_exception_list r)]"


section \<open>The analyzer composer over the mappers\<close>







section \<open>A small configuration for concrete runs\<close>

text \<open>
  Tables with a few entries, packages switched on, a dictionary file of two lines, a
  package service that answers with one id, and a digest that is constant (so that every
  content hash is \<open>''0''\<close>: no run below rests on two hashes being different).
\<close>

definition demo_env :: env where
  "demo_env =
     \<lparr>collection = ''books'',
      tokenizer_mapping =
        [''standard'' \<mapsto> \<lparr>ttype = ''standard'',
            tattrs = [(''max_token_length'', ValueFrom ''maxTokenLength'' (JNum 255))]\<rparr>],
      filter_mapping =
        [''lowercase'' \<mapsto> \<lparr>ttype = ''lowercase'', tattrs = []\<rparr>,
         ''lower'' \<mapsto> \<lparr>ttype = ''lowercase'', tattrs = []\<rparr>,
         ''stop'' \<mapsto> \<lparr>ttype = ''stop'',
            tattrs = [(''ignore_case'', ValueFrom ''ignoreCase'' (JBool False)),
                      (''stopwords_path'', ValueFromFile ''words'' (Some True) (JList []))]\<rparr>],
      char_filter_mapping =
        [''htmlstrip'' \<mapsto> \<lparr>ttype = ''html_strip'', tattrs = []\<rparr>,
         ''mapping'' \<mapsto> \<lparr>ttype = ''mapping'',
            tattrs = [(''mappings_path'', ValueFromFile ''mapping'' (Some True) (JList []))]\<rparr>],
      field_data_types_mapping =
        [''solr.TextField'' \<mapsto> ''text'', ''solr.StrField'' \<mapsto> ''keyword''],
      attributes_mapping = [(''stored'', ''store''), (''indexed'', ''index'')],
      config = \<lparr>create_package = True, expand_files_array = False,
                 skip_text_analysis_failure = False,
                 map_fields_on_analyzer_failure = False\<rparr>,
      get_solr_file_data = (\<lambda>filename. Inr ''a''),
      create_and_associate_package = (\<lambda>name file. Inr ''F123''),
      digest = (\<lambda>d. 0)\<rparr>"

text \<open>
  A schema with the field type \<open>text_general\<close> as Solr ships it (an index-time and a
  query-time analyzer, no default analyzer), a field and a dynamic field of that type,
  and a copy-field relation.
\<close>

definition demo_schema :: schema where
  "demo_schema =
     \<lparr>fieldTypes =
        [\<lparr>ft_name = ''text_general'', ft_class = ''solr.TextField'', analyzer = None,
          indexAnalyzer = Some
            \<lparr>tokenizer = Some [(''class'', JStr ''solr.StandardTokenizerFactory'')],
             filters = Some [[(''class'', JStr ''solr.LowerCaseFilterFactory'')]],
             charFilters = None\<rparr>,
          queryAnalyzer = Some
            \<lparr>tokenizer = Some [(''class'', JStr ''solr.StandardTokenizerFactory'')],
             filters = Some [[(''class'', JStr ''solr.LowerCaseFilterFactory'')]],
             charFilters = None\<rparr>\<rparr>],
      schema_fields =
        [\<lparr>fname = ''title'', ftype = ''text_general'',
          fitems = [(''name'', JStr ''title''), (''type'', JStr ''text_general''),
                    (''stored'', JBool True)]\<rparr>,
         \<lparr>fname = ''all'', ftype = ''text_general'',
          fitems = [(''name'', JStr ''all''), (''type'', JStr ''text_general'')]\<rparr>],
      dynamicFields =
        [\<lparr>fname = ''*_txt'', ftype = ''text_general'',
          fitems = [(''name'', JStr ''*_txt''), (''type'', JStr ''text_general''),
                    (''stored'', JBool True)]\<rparr>],
      copyFields = [\<lparr>source = ''title'', dest = ''all''\<rparr>]\<rparr>"

section \<open>Substrings\<close>

lemma contains_iff: "contains m s \<longleftrightarrow> (\<exists>a b. s = a @ m @ b)"
proof (induction s)
  case Nil
  then show ?case by auto
next
  case (Cons c cs)
  show ?case
  proof
    assume "contains m (c # cs)"
    then consider "prefix m (c # cs)" | "contains m cs" by auto
    then show "\<exists>a b. c # cs = a @ m @ b"
    proof cases
      case 1
      then obtain b where "c # cs = m @ b" by (auto simp: prefix_def)
      then have "c # cs = [] @ m @ b" by simp
      then show ?thesis by blast
    next
      case 2
      with Cons.IH obtain a b where "cs = a @ m @ b" by blast
      then have "c # cs = (c # a) @ m @ b" by simp
      then show ?thesis by blast
    qed
  next
    assume "\<exists>a b. c # cs = a @ m @ b"
    then obtain a b where ab: "c # cs = a @ m @ b" by blast
    show "contains m (c # cs)"
    proof (cases a)
      case Nil
      with ab have "prefix m (c # cs)" by (simp add: prefix_def)
      then show ?thesis by simp
    next
      case (Cons x xs)
      with ab have "cs = xs @ m @ b" by simp
      with Cons.IH have "contains m cs" by blast
      then show ?thesis by simp
    qed
  qed
qed

lemma before_first_no_occurrence:
  "\<not> contains m s \<Longrightarrow> before_first m s = s"
  by (induction s) auto

lemma before_first_suffix:
  assumes "m \<noteq> []" and "\<not> contains m (butlast (b @ m))"
  shows "before_first m (b @ m) = b"
  using assms
proof (induction b)
  case Nil
  then show ?case by (cases m) auto
next
  case (Cons c b)
  have nb: "\<not> contains m (butlast (b @ m))"
  proof
    assume "contains m (butlast (b @ m))"
    then obtain x y where "butlast (b @ m) = x @ m @ y" by (auto simp: contains_iff)
    then have "butlast ((c # b) @ m) = (c # x) @ m @ y" using Cons.prems(1) by (simp add: butlast_append)
    then have "contains m (butlast ((c # b) @ m))" unfolding contains_iff by blast
    with Cons.prems show False by simp
  qed
  have np: "\<not> prefix m ((c # b) @ m)"
  proof
    assume "prefix m ((c # b) @ m)"
    then obtain y where y: "(c # b) @ m = m @ y" by (auto simp: prefix_def)
    then have "length y = Suc (length b)" by (metis add_left_cancel length_append length_Cons add.commute)
    then have "y \<noteq> []" by auto
    then have "butlast ((c # b) @ m) = [] @ m @ butlast y" using y by (simp add: butlast_append)
    then have "contains m (butlast ((c # b) @ m))" unfolding contains_iff by blast
    with Cons.prems show False by simp
  qed
  from np nb Cons.IH Cons.prems(1) show ?case by simp
qed

lemma split_on_no_sep: "sep \<notin> set s \<Longrightarrow> split_on sep s = [s]"
  by (induction s) (auto simp: Let_def)

lemma split_on_two:
  "sep \<notin> set p \<Longrightarrow> sep \<notin> set s \<Longrightarrow> split_on sep (p @ sep # s) = [p, s]"
  by (induction p) (auto simp: Let_def split_on_no_sep)

lemma occurrence_at_end:
  assumes "\<not> contains m (butlast s)" and "s = a @ m @ b"
  shows "b = []"
proof (rule ccontr)
  assume "b \<noteq> []"
  with assms(2) have "butlast s = a @ m @ butlast b" by (simp add: butlast_append)
  then have "contains m (butlast s)" unfolding contains_iff by blast
  with assms(1) show False by simp
qed

lemma contains_suffix_self: "contains m (b @ m)"
  unfolding contains_iff by (metis append_Nil2)

lemma no_longer_marker:
  assumes "\<not> contains m (butlast s)" and "\<not> suffix (p @ m) s"
  shows "\<not> contains (p @ m) s"
proof
  assume "contains (p @ m) s"
  then obtain a b where ab: "s = a @ (p @ m) @ b" unfolding contains_iff by blast
  then have "s = (a @ p) @ m @ b" by simp
  with assms(1) have "b = []" by (rule occurrence_at_end)
  with ab have "suffix (p @ m) s" by (simp add: suffix_def)
  with assms(2) show False by simp
qed

lemma no_marker_before:
  assumes "\<not> contains m (butlast s)"
  shows "\<not> contains (p @ m) (butlast s)"
proof
  assume "contains (p @ m) (butlast s)"
  then obtain a b where "butlast s = a @ (p @ m) @ b" unfolding contains_iff by blast
  then have "butlast s = (a @ p) @ m @ b" by simp
  then have "contains m (butlast s)" unfolding contains_iff by blast
  with assms show False by simp
qed

lemma filter_name_of_class:
  assumes "py_get cfg ''name'' = JNull"
    and "py_get cfg ''class'' = JStr (pkg @ CHR ''.'' # seg)"
    and "CHR ''.'' \<notin> set pkg" and "CHR ''.'' \<notin> set seg"
  shows "get_filter_name cfg =
     Inr (if contains ''TokenFilterFactory'' seg
            then lower (before_first ''TokenFilterFactory'' seg)
          else if contains ''CharFilterFactory'' seg
            then lower (before_first ''CharFilterFactory'' seg)
          else if contains ''FilterFactory'' seg
            then lower (before_first ''FilterFactory'' seg)
          else seg)"
  using assms by (simp add: get_filter_name_def split_on_two)

lemma tokenizer_name_of_class:
  assumes "py_get cfg ''name'' = JNull"
    and "py_get cfg ''class'' = JStr (pkg @ CHR ''.'' # seg)"
    and "CHR ''.'' \<notin> set pkg" and "CHR ''.'' \<notin> set seg"
  shows "get_tokenizer_name cfg =
     Inr (if contains ''TokenizerFactory'' seg
            then lower (before_first ''TokenizerFactory'' seg)
          else seg)"
  using assms by (simp add: get_tokenizer_name_def split_on_two)

lemma strip_token_filter_factory:
  assumes "\<not> contains ''FilterFactory'' (butlast (base @ ''TokenFilterFactory''))"
  shows "contains ''TokenFilterFactory'' (base @ ''TokenFilterFactory'')"
    and "before_first ''TokenFilterFactory'' (base @ ''TokenFilterFactory'') = base"
proof -
  show "contains ''TokenFilterFactory'' (base @ ''TokenFilterFactory'')"
    by (rule contains_suffix_self)
  have "\<not> contains (''Token'' @ ''FilterFactory'') (butlast (base @ ''TokenFilterFactory''))"
    using assms by (rule no_marker_before)
  then show "before_first ''TokenFilterFactory'' (base @ ''TokenFilterFactory'') = base"
    by (intro before_first_suffix) simp_all
qed

lemma strip_char_filter_factory:
  assumes "\<not> contains ''FilterFactory'' (butlast (base @ ''CharFilterFactory''))"
  shows "\<not> contains ''TokenFilterFactory'' (base @ ''CharFilterFactory'')"
    and "contains ''CharFilterFactory'' (base @ ''CharFilterFactory'')"
    and "before_first ''CharFilterFactory'' (base @ ''CharFilterFactory'') = base"
proof -
  have "\<not> suffix (''Token'' @ ''FilterFactory'') (base @ ''CharFilterFactory'')"
  proof
    assume "suffix (''Token'' @ ''FilterFactory'') (base @ ''CharFilterFactory'')"
    then obtain a where "base @ ''CharFilterFactory'' = a @ ''TokenFilterFactory''"
      by (auto simp: suffix_def)
    then have "rev (base @ ''CharFilterFactory'') = rev (a @ ''TokenFilterFactory'')"
      by (rule arg_cong)
    then show False by simp
  qed
  with assms have "\<not> contains (''Token'' @ ''FilterFactory'') (base @ ''CharFilterFactory'')"
    by (rule no_longer_marker)
  then show "\<not> contains ''TokenFilterFactory'' (base @ ''CharFilterFactory'')" by simp
  show "contains ''CharFilterFactory'' (base @ ''CharFilterFactory'')"
    by (rule contains_suffix_self)
  have "\<not> contains (''Char'' @ ''FilterFactory'') (butlast (base @ ''CharFilterFactory''))"
    using assms by (rule no_marker_before)
  then show "before_first ''CharFilterFactory'' (base @ ''CharFilterFactory'') = base"
    by (intro before_first_suffix) simp_all
qed

lemma strip_filter_factory:
  assumes "\<not> contains ''FilterFactory'' (butlast (base @ ''FilterFactory''))"
    and "\<not> suffix ''Token'' base" and "\<not> suffix ''Char'' base"
  shows "\<not> contains ''TokenFilterFactory'' (base @ ''FilterFactory'')"
    and "\<not> contains ''CharFilterFactory'' (base @ ''FilterFactory'')"
    and "contains ''FilterFactory'' (base @ ''FilterFactory'')"
    and "before_first ''FilterFactory'' (base @ ''FilterFactory'') = base"
proof -
  have "\<not> suffix (''Token'' @ ''FilterFactory'') (base @ ''FilterFactory'')"
    using assms(2) by (auto simp: suffix_def)
  with assms(1) have "\<not> contains (''Token'' @ ''FilterFactory'') (base @ ''FilterFactory'')"
    by (rule no_longer_marker)
  then show "\<not> contains ''TokenFilterFactory'' (base @ ''FilterFactory'')" by simp
  have "\<not> suffix (''Char'' @ ''FilterFactory'') (base @ ''FilterFactory'')"
    using assms(3) by (auto simp: suffix_def)
  with assms(1) have "\<not> contains (''Char'' @ ''FilterFactory'') (base @ ''FilterFactory'')"
    by (rule no_longer_marker)
  then show "\<not> contains ''CharFilterFactory'' (base @ ''FilterFactory'')" by simp
  show "contains ''FilterFactory'' (base @ ''FilterFactory'')"
    by (rule contains_suffix_self)
  show "before_first ''FilterFactory'' (base @ ''FilterFactory'') = base"
    using assms(1) by (intro before_first_suffix) simp_all
qed

lemma strip_tokenizer_factory:
  assumes "\<not> contains ''TokenizerFactory'' (butlast (base @ ''TokenizerFactory''))"
  shows "contains ''TokenizerFactory'' (base @ ''TokenizerFactory'')"
    and "before_first ''TokenizerFactory'' (base @ ''TokenizerFactory'') = base"
proof -
  show "contains ''TokenizerFactory'' (base @ ''TokenizerFactory'')"
    by (rule contains_suffix_self)
  show "before_first ''TokenizerFactory'' (base @ ''TokenizerFactory'') = base"
    using assms by (intro before_first_suffix) simp_all
qed

section \<open>The lookup name of a construct\<close>

text \<open>
  C5, as stated: the lookup name is the explicit name lowercased, otherwise the last
  dot-separated segment of the class name with the factory suffix \<^verbatim>\<open>TokenizerFactory\<close>,
  \<^verbatim>\<open>TokenFilterFactory\<close> or \<^verbatim>\<open>CharFilterFactory\<close> stripped, lowercased. The code differs
  on the most common filter class names, which end in \<^verbatim>\<open>FilterFactory\<close> alone: it strips
  that marker too.
\<close>

theorem lookup_name_counterexample:
  "get_filter_name [(''class'', JStr ''solr.LowerCaseFilterFactory'')] = Inr ''lowercase''
   \<and> spec_lookup_name [(''class'', JStr ''solr.LowerCaseFilterFactory'')]
       = Some ''lowercasefilterfactory''"
  by (simp add: get_filter_name_def spec_lookup_name_def py_get_def lower_def lower_char_def
      spec_strip_factory_suffix_def suffix_to_prefix)

text \<open>
  The code takes the element at index 1 of the split class name, which is the last
  segment only for a class name of two segments.
\<close>

lemma get_filter_name_second_segment:
  "get_filter_name [(''class'', JStr ''org.apache.lucene.analysis.core.LowerCaseFilterFactory'')]
     = Inr ''apache''"
  by (simp add: get_filter_name_def py_get_def lower_def lower_char_def)

text \<open>
  C5, amended: an explicit name is lowercased. Otherwise, for a class name of two
  dot-separated segments whose second segment is a base followed by a marker, with no
  earlier occurrence of the marker, the lookup name is the base lowercased; the marker
  is \<^verbatim>\<open>TokenizerFactory\<close> for a tokenizer and \<^verbatim>\<open>TokenFilterFactory\<close>,
  \<^verbatim>\<open>CharFilterFactory\<close> or plain \<^verbatim>\<open>FilterFactory\<close> for a filter or char filter.
\<close>

theorem lookup_name_amended:
  "(py_get cfg ''name'' = JStr n \<longrightarrow>
      get_filter_name cfg = Inr (lower n) \<and> get_tokenizer_name cfg = Inr (lower n))
   \<and> (py_get cfg ''name'' = JNull
        \<and> py_get cfg ''class'' = JStr (pkg @ CHR ''.'' # base @ suf)
        \<and> CHR ''.'' \<notin> set pkg \<and> CHR ''.'' \<notin> set (base @ suf) \<longrightarrow>
      (suf = ''TokenizerFactory''
         \<and> \<not> contains ''TokenizerFactory'' (butlast (base @ suf)) \<longrightarrow>
       get_tokenizer_name cfg = Inr (lower base))
      \<and> (suf \<in> {''TokenFilterFactory'', ''CharFilterFactory''}
         \<and> \<not> contains ''FilterFactory'' (butlast (base @ suf)) \<longrightarrow>
       get_filter_name cfg = Inr (lower base))
      \<and> (suf = ''FilterFactory''
         \<and> \<not> contains ''FilterFactory'' (butlast (base @ suf))
         \<and> \<not> suffix ''Token'' base \<and> \<not> suffix ''Char'' base \<longrightarrow>
       get_filter_name cfg = Inr (lower base)))"
proof (intro conjI impI)
  assume "py_get cfg ''name'' = JStr n"
  then show "get_filter_name cfg = Inr (lower n)" "get_tokenizer_name cfg = Inr (lower n)"
    by (simp_all add: get_filter_name_def get_tokenizer_name_def)
next
  assume c: "py_get cfg ''name'' = JNull
        \<and> py_get cfg ''class'' = JStr (pkg @ CHR ''.'' # base @ suf)
        \<and> CHR ''.'' \<notin> set pkg \<and> CHR ''.'' \<notin> set (base @ suf)"
  assume s: "suf = ''TokenizerFactory'' \<and> \<not> contains ''TokenizerFactory'' (butlast (base @ suf))"
  then have n: "\<not> contains ''TokenizerFactory'' (butlast (base @ ''TokenizerFactory''))"
    by blast
  have "get_tokenizer_name cfg =
     Inr (if contains ''TokenizerFactory'' (base @ suf)
            then lower (before_first ''TokenizerFactory'' (base @ suf))
          else base @ suf)"
    using c by (intro tokenizer_name_of_class [of cfg pkg]) simp_all
  then show "get_tokenizer_name cfg = Inr (lower base)"
    using s strip_tokenizer_factory [OF n] by simp
next
  assume c: "py_get cfg ''name'' = JNull
        \<and> py_get cfg ''class'' = JStr (pkg @ CHR ''.'' # base @ suf)
        \<and> CHR ''.'' \<notin> set pkg \<and> CHR ''.'' \<notin> set (base @ suf)"
  assume s: "suf \<in> {''TokenFilterFactory'', ''CharFilterFactory''}
         \<and> \<not> contains ''FilterFactory'' (butlast (base @ suf))"
  have g: "get_filter_name cfg =
     Inr (if contains ''TokenFilterFactory'' (base @ suf)
            then lower (before_first ''TokenFilterFactory'' (base @ suf))
          else if contains ''CharFilterFactory'' (base @ suf)
            then lower (before_first ''CharFilterFactory'' (base @ suf))
          else if contains ''FilterFactory'' (base @ suf)
            then lower (before_first ''FilterFactory'' (base @ suf))
          else base @ suf)"
    using c by (intro filter_name_of_class [of cfg pkg]) simp_all
  from s consider "suf = ''TokenFilterFactory''" | "suf = ''CharFilterFactory''" by blast
  then show "get_filter_name cfg = Inr (lower base)"
  proof cases
    case 1
    with s have n: "\<not> contains ''FilterFactory'' (butlast (base @ ''TokenFilterFactory''))"
      by blast
    show ?thesis using g strip_token_filter_factory [OF n] by (simp add: 1)
  next
    case 2
    with s have n: "\<not> contains ''FilterFactory'' (butlast (base @ ''CharFilterFactory''))"
      by blast
    show ?thesis using g strip_char_filter_factory [OF n] by (simp add: 2)
  qed
next
  assume c: "py_get cfg ''name'' = JNull
        \<and> py_get cfg ''class'' = JStr (pkg @ CHR ''.'' # base @ suf)
        \<and> CHR ''.'' \<notin> set pkg \<and> CHR ''.'' \<notin> set (base @ suf)"
  assume s: "suf = ''FilterFactory''
         \<and> \<not> contains ''FilterFactory'' (butlast (base @ suf))
         \<and> \<not> suffix ''Token'' base \<and> \<not> suffix ''Char'' base"
  then have suf: "suf = ''FilterFactory''"
    and n: "\<not> contains ''FilterFactory'' (butlast (base @ ''FilterFactory''))"
    and t: "\<not> suffix ''Token'' base" and h: "\<not> suffix ''Char'' base"
    by blast+
  have "get_filter_name cfg =
     Inr (if contains ''TokenFilterFactory'' (base @ suf)
            then lower (before_first ''TokenFilterFactory'' (base @ suf))
          else if contains ''CharFilterFactory'' (base @ suf)
            then lower (before_first ''CharFilterFactory'' (base @ suf))
          else if contains ''FilterFactory'' (base @ suf)
            then lower (before_first ''FilterFactory'' (base @ suf))
          else base @ suf)"
    using c by (intro filter_name_of_class [of cfg pkg]) simp_all
  then show "get_filter_name cfg = Inr (lower base)"
    using strip_filter_factory [OF n t h] by (simp add: suf)
qed

theorem lookup_name_amended_witness:
  "get_filter_name [(''name'', JStr ''LowerCase'')] = Inr ''lowercase''
   \<and> get_tokenizer_name [(''class'', JStr ''solr.StandardTokenizerFactory'')] = Inr ''standard''
   \<and> get_filter_name [(''class'', JStr ''solr.PatternReplaceCharFilterFactory'')] = Inr ''patternreplace''
   \<and> get_filter_name [(''class'', JStr ''solr.LowerCaseFilterFactory'')] = Inr ''lowercase''"
  using lookup_name_amended [of "[(''name'', JStr ''LowerCase'')]" "''LowerCase''"]
    lookup_name_amended [of "[(''class'', JStr ''solr.StandardTokenizerFactory'')]" n
      "''solr''" "''Standard''" "''TokenizerFactory''"]
    lookup_name_amended [of "[(''class'', JStr ''solr.PatternReplaceCharFilterFactory'')]" n
      "''solr''" "''PatternReplace''" "''CharFilterFactory''"]
    lookup_name_amended [of "[(''class'', JStr ''solr.LowerCaseFilterFactory'')]" n
      "''solr''" "''LowerCase''" "''FilterFactory''"]
  by (simp add: py_get_def lower_def lower_char_def suffix_to_prefix)

section \<open>Runs on the small configuration\<close>








section \<open>The pre-check of a filter chain\<close>

lemma pre_check_finds_unmapped:
  "\<exists>f\<in>set fs. \<exists>n. get_filter_name f = Inr n \<and> table n = None
     \<Longrightarrow> \<exists>x. pre_check table not_found fs = Some x"
  by (induction fs) (auto split: sum.splits option.splits)

lemma pre_check_not_found:
  "\<forall>f\<in>set fs. \<exists>n. get_filter_name f = Inr n \<Longrightarrow> pre_check table not_found fs = Some x
     \<Longrightarrow> \<exists>n. x = not_found n \<and> table n = None"
  by (induction fs) (auto split: sum.splits option.splits)

lemma pre_check_passes:
  "pre_check table not_found fs = None
     \<longleftrightarrow> (\<forall>f\<in>set fs. \<exists>n. get_filter_name f = Inr n \<and> table n \<noteq> None)"
  by (induction fs) (auto split: sum.splits option.splits)

text \<open>
  C2: when a list of filter (or char-filter) definitions holds an element whose resolved
  name has no entry in the table, \<open>map_filters\<close> (\<open>map_char_filters\<close>) raises and leaves
  the whole state as it was: no package file, no package, no entry in a cache, also for
  the elements before the unmappable one. Where the name of every element resolves, the
  exception is the mapping exception with the shared message. (An element such as a
  class name without a dot makes phase 1 raise that element's own error instead, with the
  state untouched all the same.)
\<close>

theorem map_filters_pre_check:
  "((\<exists>f\<in>set fs. \<exists>n. get_filter_name f = Inr n \<and> filter_mapping e n = None) \<longrightarrow>
      (\<exists>x. map_filters e st fs = (Inl x, st)
         \<and> ((\<forall>f\<in>set fs. \<exists>n. get_filter_name f = Inr n) \<longrightarrow>
              (\<exists>n. x = FilterMappingException n MAPPING_NOT_FOUND \<and> filter_mapping e n = None))))
   \<and> ((\<exists>f\<in>set fs. \<exists>n. get_filter_name f = Inr n \<and> char_filter_mapping e n = None) \<longrightarrow>
      (\<exists>x. map_char_filters e st fs = (Inl x, st)
         \<and> ((\<forall>f\<in>set fs. \<exists>n. get_filter_name f = Inr n) \<longrightarrow>
              (\<exists>n. x = CharFilterMappingException n MAPPING_NOT_FOUND
                   \<and> char_filter_mapping e n = None))))"
proof (intro conjI impI)
  assume "\<exists>f\<in>set fs. \<exists>n. get_filter_name f = Inr n \<and> filter_mapping e n = None"
  then obtain x where
    x: "pre_check (filter_mapping e) (\<lambda>nm. FilterMappingException nm MAPPING_NOT_FOUND) fs = Some x"
    using pre_check_finds_unmapped by blast
  then have "map_filters e st fs = (Inl x, st)" by (simp add: map_filters_def)
  moreover have "\<exists>n. x = FilterMappingException n MAPPING_NOT_FOUND \<and> filter_mapping e n = None"
    if "\<forall>f\<in>set fs. \<exists>n. get_filter_name f = Inr n"
    using pre_check_not_found [OF that x] .
  ultimately show "\<exists>x. map_filters e st fs = (Inl x, st)
         \<and> ((\<forall>f\<in>set fs. \<exists>n. get_filter_name f = Inr n) \<longrightarrow>
              (\<exists>n. x = FilterMappingException n MAPPING_NOT_FOUND \<and> filter_mapping e n = None))"
    by blast
next
  assume "\<exists>f\<in>set fs. \<exists>n. get_filter_name f = Inr n \<and> char_filter_mapping e n = None"
  then obtain x where
    x: "pre_check (char_filter_mapping e)
          (\<lambda>nm. CharFilterMappingException nm MAPPING_NOT_FOUND) fs = Some x"
    using pre_check_finds_unmapped by blast
  then have "map_char_filters e st fs = (Inl x, st)" by (simp add: map_char_filters_def)
  moreover have "\<exists>n. x = CharFilterMappingException n MAPPING_NOT_FOUND
      \<and> char_filter_mapping e n = None"
    if "\<forall>f\<in>set fs. \<exists>n. get_filter_name f = Inr n"
    using pre_check_not_found [OF that x] .
  ultimately show "\<exists>x. map_char_filters e st fs = (Inl x, st)
         \<and> ((\<forall>f\<in>set fs. \<exists>n. get_filter_name f = Inr n) \<longrightarrow>
              (\<exists>n. x = CharFilterMappingException n MAPPING_NOT_FOUND
                   \<and> char_filter_mapping e n = None))"
    by blast
qed

lemma name_stop: "get_filter_name [(''class'', JStr ''solr.StopFilterFactory''), (''words'', JStr ''stopwords.txt'')] = Inr ''stop''"
  by (simp add: get_filter_name_def py_get_def lower_def lower_char_def)

lemma name_syn: "get_filter_name [(''name'', JStr ''synonymGraph'')] = Inr ''synonymgraph''"
  by (simp add: get_filter_name_def py_get_def lower_def lower_char_def)

lemma name_map: "get_filter_name [(''class'', JStr ''solr.MappingCharFilterFactory''), (''mapping'', JStr ''map.txt'')] = Inr ''mapping''"
  by (simp add: get_filter_name_def py_get_def lower_def lower_char_def)

theorem map_filters_pre_check_witness:
  "(\<exists>n. map_filters demo_env init_helper_state
           [[(''class'', JStr ''solr.StopFilterFactory''), (''words'', JStr ''stopwords.txt'')],
            [(''name'', JStr ''synonymGraph'')]]
         = (Inl (FilterMappingException n MAPPING_NOT_FOUND), init_helper_state))
   \<and> (\<exists>n. map_char_filters demo_env init_helper_state
           [[(''class'', JStr ''solr.MappingCharFilterFactory''), (''mapping'', JStr ''map.txt'')],
            [(''name'', JStr ''synonymGraph'')]]
         = (Inl (CharFilterMappingException n MAPPING_NOT_FOUND), init_helper_state))"
  using map_filters_pre_check [of
      "[[(''class'', JStr ''solr.StopFilterFactory''), (''words'', JStr ''stopwords.txt'')],
        [(''name'', JStr ''synonymGraph'')]]" demo_env init_helper_state]
    map_filters_pre_check [of
      "[[(''class'', JStr ''solr.MappingCharFilterFactory''), (''mapping'', JStr ''map.txt'')],
        [(''name'', JStr ''synonymGraph'')]]" demo_env init_helper_state]
  by (auto simp: name_stop name_syn name_map demo_env_def)

section \<open>The construct cache of the filter mapper\<close>












section \<open>The analyzer composer\<close>
















section \<open>Copy fields\<close>

lemma map_of_dict_set_present:
  "map_of (map (\<lambda>kv. if fst kv = k then (fst kv, v) else kv) xs) k' =
     (if k' = k \<and> map_of xs k \<noteq> None then Some v else map_of xs k')"
proof (induction xs)
  case Nil
  then show ?case by simp
next
  case (Cons x xs)
  then show ?case by (cases x) (auto split: if_splits)
qed

lemma map_of_dict_set:
  "map_of (dict_set d k v) k' = (if k' = k then Some v else map_of d k')"
proof (cases "k \<in> fst ` set d")
  case True
  then have "map_of d k \<noteq> None" by (simp add: map_of_eq_None_iff)
  moreover have "(\<lambda>(k', v'). if k' = k then (k', v) else (k', v'))
      = (\<lambda>kv. if fst kv = k then (fst kv, v) else kv)"
    by (auto simp: fun_eq_iff)
  ultimately show ?thesis using True
    by (simp add: dict_set_def map_of_dict_set_present)
next
  case False
  then have "map_of d k = None" by (simp add: map_of_eq_None_iff)
  with False show ?thesis by (auto simp: dict_set_def map_add_def split: option.splits)
qed


lemma map_copy_field_missing:
  "all_fields h (source cf) = None \<or> all_fields h (dest cf) = None \<Longrightarrow>
   map_copy_field h cf =
     (Inl (CopyFieldMappingException (source cf) MAPPING_NOT_FOUND (Some (source cf))), h)"
  by (auto simp: map_copy_field_def Let_def split: option.splits)

lemma spec_copy_to_snoc:
  "ds \<noteq> [] \<Longrightarrow> spec_copy_to (ds @ [d]) = JList (map JStr ds @ [JStr d])"
  by (cases ds) (auto simp: spec_copy_to_def split: list.splits)

lemma map_copy_field_present:
  assumes "all_fields h (source cf) = Some sd" and "all_fields h (dest cf) = Some dd"
    and "copy_inv h"
  shows "\<exists>sd' dd'. map_copy_field h cf =
           (Inr (source cf, sd', dest cf, dd'),
            h\<lparr>all_fields := (all_fields h)(source cf \<mapsto> sd'),
              field_copy_to := (field_copy_to h)
                (source cf \<mapsto> destinations h (source cf) @ [dest cf])\<rparr>)
         \<and> map_of sd' ''copy_to''
             = Some (spec_copy_to (destinations h (source cf) @ [dest cf]))"
proof (cases "field_copy_to h (source cf)")
  case None
  then show ?thesis
    using assms(1,2)
    by (simp add: map_copy_field_def Let_def destinations_def map_of_dict_set spec_copy_to_def)
next
  case (Some ds)
  with assms(1,3) have ne: "ds \<noteq> []"
    and ct: "map_of sd ''copy_to'' = Some (spec_copy_to ds)"
    unfolding copy_inv_def by (metis option.inject)+
  show ?thesis
  proof (cases ds)
    case Nil
    with ne show ?thesis by simp
  next
    case (Cons d1 r)
    show ?thesis
    proof (cases r)
      case Nil
      with Cons ct have "map_of sd ''copy_to'' = Some (JStr d1)"
        by (simp add: spec_copy_to_def)
      then show ?thesis
        using assms(1,2) Some Cons Nil
        by (simp add: map_copy_field_def Let_def destinations_def map_of_dict_set
            spec_copy_to_def)
    next
      case (Cons d2 r')
      with \<open>ds = d1 # r\<close> ct have "map_of sd ''copy_to'' = Some (JList (map JStr ds))"
        by (simp add: spec_copy_to_def)
      then show ?thesis
        using assms(1,2) Some ne
        by (simp add: map_copy_field_def Let_def destinations_def map_of_dict_set
            spec_copy_to_snoc)
    qed
  qed
qed


lemma migrate_copy_field_helper:
  "fst (snd (migrate_copy_field (h, ms) cf)) = snd (map_copy_field h cf)"
  "fst (migrate_copy_field (h, ms) cf) = None"
  by (auto simp: migrate_copy_field_def Let_def split: prod.splits sum.splits)

lemma map_copy_field_step:
  assumes "copy_inv h"
  shows "copy_inv (snd (map_copy_field h cf))
     \<and> dom (all_fields (snd (map_copy_field h cf))) = dom (all_fields h)
     \<and> (\<forall>s. destinations (snd (map_copy_field h cf)) s =
            destinations h s @
              (if source cf = s \<and> all_fields h (source cf) \<noteq> None
                  \<and> all_fields h (dest cf) \<noteq> None then [dest cf] else []))
     \<and> (\<forall>s. field_copy_to (snd (map_copy_field h cf)) s = None \<longrightarrow>
            all_fields (snd (map_copy_field h cf)) s = all_fields h s)"
proof (cases "all_fields h (source cf) = None \<or> all_fields h (dest cf) = None")
  case True
  then have "snd (map_copy_field h cf) = h" by (simp add: map_copy_field_missing)
  with True assms show ?thesis by auto
next
  case False
  then obtain sd dd where sd: "all_fields h (source cf) = Some sd"
    and dd: "all_fields h (dest cf) = Some dd" by auto
  from map_copy_field_present [OF sd dd assms] obtain sd' dd' where
    r: "map_copy_field h cf =
           (Inr (source cf, sd', dest cf, dd'),
            h\<lparr>all_fields := (all_fields h)(source cf \<mapsto> sd'),
              field_copy_to := (field_copy_to h)
                (source cf \<mapsto> destinations h (source cf) @ [dest cf])\<rparr>)"
    and c: "map_of sd' ''copy_to''
             = Some (spec_copy_to (destinations h (source cf) @ [dest cf]))"
    by blast
  have "copy_inv (snd (map_copy_field h cf))"
    using assms c by (auto simp: r copy_inv_def)
  moreover have "dom (all_fields (snd (map_copy_field h cf))) = dom (all_fields h)"
    using sd by (auto simp: r)
  ultimately show ?thesis
    using sd dd by (auto simp: r destinations_def)
qed

lemma copy_loop:
  assumes "copy_inv h" and "for_each migrate_copy_field (h, ms) cfs = (x, h', ms')"
  shows "x = None \<and> copy_inv h' \<and> dom (all_fields h') = dom (all_fields h)
     \<and> (\<forall>s. destinations h' s =
            destinations h s @
              map dest (filter (\<lambda>cf. source cf = s \<and> all_fields h (source cf) \<noteq> None
                                   \<and> all_fields h (dest cf) \<noteq> None) cfs))
     \<and> (\<forall>s. field_copy_to h' s = None \<longrightarrow> all_fields h' s = all_fields h s)"
  using assms
proof (induction cfs arbitrary: h ms)
  case Nil
  then show ?case by simp
next
  case (Cons cf cfs)
  obtain h1 ms1 where m: "migrate_copy_field (h, ms) cf = (None, h1, ms1)"
    using migrate_copy_field_helper(2) [of h ms cf]
    by (cases "migrate_copy_field (h, ms) cf") auto
  then have h1: "h1 = snd (map_copy_field h cf)"
    using migrate_copy_field_helper(1) [of h ms cf] by simp
  from map_copy_field_step [OF Cons.prems(1), of cf]
  have i1: "copy_inv h1" and d1: "dom (all_fields h1) = dom (all_fields h)"
    and a1: "\<forall>s. destinations h1 s =
            destinations h s @
              (if source cf = s \<and> all_fields h (source cf) \<noteq> None
                  \<and> all_fields h (dest cf) \<noteq> None then [dest cf] else [])"
    and n1: "\<forall>s. field_copy_to h1 s = None \<longrightarrow> all_fields h1 s = all_fields h s"
    unfolding h1 by blast+
  from Cons.prems(2) m have l: "for_each migrate_copy_field (h1, ms1) cfs = (x, h', ms')"
    by simp
  from Cons.IH [OF i1 l]
  have x: "x = None" and i': "copy_inv h'" and d': "dom (all_fields h') = dom (all_fields h1)"
    and a': "\<forall>s. destinations h' s =
            destinations h1 s @
              map dest (filter (\<lambda>cf. source cf = s \<and> all_fields h1 (source cf) \<noteq> None
                                   \<and> all_fields h1 (dest cf) \<noteq> None) cfs)"
    and n': "\<forall>s. field_copy_to h' s = None \<longrightarrow> all_fields h' s = all_fields h1 s"
    by blast+
  have same: "all_fields h1 k \<noteq> None \<longleftrightarrow> all_fields h k \<noteq> None" for k
    using d1 by (metis domIff)
  have filt: "filter (\<lambda>cf. source cf = s \<and> all_fields h1 (source cf) \<noteq> None
                          \<and> all_fields h1 (dest cf) \<noteq> None) cfs
      = filter (\<lambda>cf. source cf = s \<and> all_fields h (source cf) \<noteq> None
                          \<and> all_fields h (dest cf) \<noteq> None) cfs" for s
    using same by metis
  have dests: "destinations h' s =
            destinations h s @
              map dest (filter (\<lambda>cf. source cf = s \<and> all_fields h (source cf) \<noteq> None
                                   \<and> all_fields h (dest cf) \<noteq> None) (cf # cfs))" for s
    unfolding a' [rule_format] a1 [rule_format] filt by simp
  have keep: "all_fields h' s = all_fields h s" if "field_copy_to h' s = None" for s
  proof -
    from that have "destinations h' s = []" by (simp add: destinations_def)
    with a' have "destinations h1 s = []" by simp
    moreover from i1 have "field_copy_to h1 s \<noteq> Some []" by (auto simp: copy_inv_def)
    ultimately have "field_copy_to h1 s = None"
      by (auto simp: destinations_def split: option.splits)
    with n1 n' that show ?thesis by simp
  qed
  from x i' d' d1 dests keep show ?case by simp
qed


text \<open>
  C6: a copy-field relation whose source or destination is not among the field
  definitions fails with the copy-field exception carrying the shared message, and the
  helper (field definitions and recorded destinations) stays as it was. Over any run of
  the copy-field loop on field definitions \<open>fs\<close>, take for a source \<open>s\<close> the destinations
  \<open>ds\<close> of its relations with both ends among \<open>fs\<close>, in order: when there is one, the
  copy-to attribute of \<open>s\<close> is that name as a scalar; when there are two or more, it is
  the flat list of all of them.
\<close>

theorem copy_field_relations:
  "(all_fields h (source cf) = None \<or> all_fields h (dest cf) = None \<longrightarrow>
      map_copy_field h cf =
        (Inl (CopyFieldMappingException (source cf) MAPPING_NOT_FOUND (Some (source cf))), h))
   \<and> (for_each migrate_copy_field (CopyFieldHelper fs, ms) cfs = (x, h', ms')
        \<and> ds = map dest (filter (\<lambda>cf. source cf = s \<and> fs (source cf) \<noteq> None
                                       \<and> fs (dest cf) \<noteq> None) cfs)
        \<and> ds \<noteq> [] \<longrightarrow>
      (\<exists>d. all_fields h' s = Some d
         \<and> map_of d ''copy_to''
              = Some (if length ds = 1 then JStr (hd ds) else JList (map JStr ds))))"
proof (intro conjI impI)
  assume "all_fields h (source cf) = None \<or> all_fields h (dest cf) = None"
  then show "map_copy_field h cf =
        (Inl (CopyFieldMappingException (source cf) MAPPING_NOT_FOUND (Some (source cf))), h)"
    by (rule map_copy_field_missing)
next
  assume a: "for_each migrate_copy_field (CopyFieldHelper fs, ms) cfs = (x, h', ms')
        \<and> ds = map dest (filter (\<lambda>cf. source cf = s \<and> fs (source cf) \<noteq> None
                                       \<and> fs (dest cf) \<noteq> None) cfs)
        \<and> ds \<noteq> []"
  have i0: "copy_inv (CopyFieldHelper fs)"
    by (simp add: copy_inv_def CopyFieldHelper_def)
  from a have l: "for_each migrate_copy_field (CopyFieldHelper fs, ms) cfs = (x, h', ms')"
    by blast
  from copy_loop [OF i0 l]
  have i': "copy_inv h'"
    and d': "\<forall>s. destinations h' s =
            destinations (CopyFieldHelper fs) s @
              map dest (filter (\<lambda>cf. source cf = s
                    \<and> all_fields (CopyFieldHelper fs) (source cf) \<noteq> None
                    \<and> all_fields (CopyFieldHelper fs) (dest cf) \<noteq> None) cfs)"
    by blast+
  from d' a have "destinations h' s = ds"
    by (simp add: destinations_def CopyFieldHelper_def)
  with a have "field_copy_to h' s = Some ds"
    by (auto simp: destinations_def split: option.splits)
  with i' obtain d where d: "all_fields h' s = Some d"
    and c: "map_of d ''copy_to'' = Some (spec_copy_to ds)"
    unfolding copy_inv_def by blast
  have "spec_copy_to ds = (if length ds = 1 then JStr (hd ds) else JList (map JStr ds))"
    by (cases ds) (auto simp: spec_copy_to_def split: list.splits)
  with d c show "\<exists>d. all_fields h' s = Some d
         \<and> map_of d ''copy_to''
              = Some (if length ds = 1 then JStr (hd ds) else JList (map JStr ds))"
    by simp
qed

theorem copy_field_relations_witness:
  "map_copy_field (CopyFieldHelper [''title'' \<mapsto> [(''type'', JStr ''text'')]])
       \<lparr>source = ''title'', dest = ''all''\<rparr> =
     (Inl (CopyFieldMappingException ''title'' MAPPING_NOT_FOUND (Some ''title'')),
      CopyFieldHelper [''title'' \<mapsto> [(''type'', JStr ''text'')]])
   \<and> (\<exists>x h' ms' d.
         for_each migrate_copy_field
           (CopyFieldHelper [''title'' \<mapsto> [(''type'', JStr ''text'')],
                             ''a'' \<mapsto> [(''type'', JStr ''text'')],
                             ''b'' \<mapsto> [(''type'', JStr ''text'')],
                             ''c'' \<mapsto> [(''type'', JStr ''text'')]], init_migrate_state)
           [\<lparr>source = ''title'', dest = ''a''\<rparr>, \<lparr>source = ''title'', dest = ''zz''\<rparr>,
            \<lparr>source = ''a'', dest = ''c''\<rparr>, \<lparr>source = ''title'', dest = ''b''\<rparr>,
            \<lparr>source = ''title'', dest = ''c''\<rparr>] = (x, h', ms')
         \<and> all_fields h' ''title'' = Some d
         \<and> map_of d ''copy_to'' = Some (JList [JStr ''a'', JStr ''b'', JStr ''c'']))"
proof -
  let ?fs = "[''title'' \<mapsto> [(''type'', JStr ''text'')],
              ''a'' \<mapsto> [(''type'', JStr ''text'')],
              ''b'' \<mapsto> [(''type'', JStr ''text'')],
              ''c'' \<mapsto> [(''type'', JStr ''text'')]]"
  let ?cfs = "[\<lparr>source = ''title'', dest = ''a''\<rparr>, \<lparr>source = ''title'', dest = ''zz''\<rparr>,
            \<lparr>source = ''a'', dest = ''c''\<rparr>, \<lparr>source = ''title'', dest = ''b''\<rparr>,
            \<lparr>source = ''title'', dest = ''c''\<rparr>]"
  obtain x h' ms' where
    l: "for_each migrate_copy_field (CopyFieldHelper ?fs, init_migrate_state) ?cfs = (x, h', ms')"
    using prod_cases3 by blast
  have ds: "[''a'', ''b'', ''c''] =
      map dest (filter (\<lambda>cf. source cf = ''title'' \<and> ?fs (source cf) \<noteq> None
                                       \<and> ?fs (dest cf) \<noteq> None) ?cfs)"
    by simp
  have ne: "[''a'', ''b'', ''c''] \<noteq> ([] :: string list)" by simp
  have "\<exists>d. all_fields h' ''title'' = Some d
         \<and> map_of d ''copy_to''
              = Some (if length [''a'', ''b'', ''c''] = 1 then JStr (hd [''a'', ''b'', ''c''])
                      else JList (map JStr [''a'', ''b'', ''c'']))"
    using copy_field_relations [of h cf ?fs init_migrate_state ?cfs x h' ms'
        "[''a'', ''b'', ''c'']" "''title''", THEN conjunct2, rule_format,
        OF conjI [OF l conjI [OF ds ne]]] .
  then have 1: "\<exists>d. all_fields h' ''title'' = Some d
         \<and> map_of d ''copy_to'' = Some (JList [JStr ''a'', JStr ''b'', JStr ''c''])"
    by simp
  have 2: "map_copy_field (CopyFieldHelper [''title'' \<mapsto> [(''type'', JStr ''text'')]])
       \<lparr>source = ''title'', dest = ''all''\<rparr> =
     (Inl (CopyFieldMappingException ''title'' MAPPING_NOT_FOUND (Some ''title'')),
      CopyFieldHelper [''title'' \<mapsto> [(''type'', JStr ''text'')]])"
    using copy_field_relations [of
        "CopyFieldHelper [''title'' \<mapsto> [(''type'', JStr ''text'')]]"
        "\<lparr>source = ''title'', dest = ''all''\<rparr>"]
    by (simp add: CopyFieldHelper_def)
  from 1 2 l show ?thesis by blast
qed

section \<open>Analyzers of fields and dynamic fields\<close>

lemma setup_analyzers_analyzer:
  "t \<noteq> [] \<Longrightarrow>
   map_of (setup_analyzers ix a t) ''analyzer'' =
     (if t @ ''_index'' \<in> get_all_analyzers ix then Some (JStr (t @ ''_index''))
      else if t \<in> get_all_analyzers ix then Some (JStr t)
      else map_of a ''analyzer'')"
  by (simp add: setup_analyzers_def Let_def map_of_dict_set)

lemma setup_analyzers_search_analyzer:
  "map_of (setup_analyzers ix a t) ''search_analyzer'' =
     (if t @ ''_query'' \<in> get_all_analyzers ix then Some (JStr (t @ ''_query''))
      else map_of a ''search_analyzer'')"
  by (simp add: setup_analyzers_def Let_def map_of_dict_set)

lemma map_of_dict_pop: "map_of (dict_pop d k) k' = (if k' = k then None else map_of d k')"
  by (induction d) (auto simp: dict_pop_def)

text \<open>
  The field mapper does what C8 says: the analyzer is the registered \<open>{type}_index\<close>, or
  else the registered \<open>{type}\<close>; the search analyzer is the registered \<open>{type}_query\<close>;
  without a registered name, nothing beyond the projected attributes is there.
\<close>

lemma map_field_analyzers:
  assumes "get_field_type st (ftype f) = Some t" and "ftype f \<noteq> []"
  shows "\<exists>a. map_field e st ix f = Inr (fname f, a)
     \<and> map_of a ''analyzer'' =
         (if ftype f @ ''_index'' \<in> get_all_analyzers ix then Some (JStr (ftype f @ ''_index''))
          else if ftype f \<in> get_all_analyzers ix then Some (JStr (ftype f))
          else map_of (project_attrs (attributes_mapping e) (fitems f) []) ''analyzer'')
     \<and> map_of a ''search_analyzer'' =
         (if ftype f @ ''_query'' \<in> get_all_analyzers ix then Some (JStr (ftype f @ ''_query''))
          else map_of (project_attrs (attributes_mapping e) (fitems f) []) ''search_analyzer'')"
  using assms
  by (simp add: map_field_def Let_def cleanup_field_attrs_def map_of_dict_pop
      setup_analyzers_analyzer setup_analyzers_search_analyzer map_of_dict_set)

lemma map_of_fold_dict_set:
  "map_of (fold (\<lambda>kv m. dict_set m (fst kv) (snd kv)) xs d) k =
     (case map_of (rev xs) k of Some v \<Rightarrow> Some v | None \<Rightarrow> map_of d k)"
  by (induction xs arbitrary: d) (auto simp: map_of_dict_set map_add_def split: option.splits)

text \<open>
  The dynamic-field mapper looks the search analyzer up under \<open>{type}s_query\<close>, and
  attaches the bare type name as analyzer also when only \<open>{type}_index\<close> is registered.
\<close>

lemma map_dynamic_field_analyzers:
  assumes "get_field_type st (ftype f) = Some t" and "ftype f \<noteq> []"
  shows "\<exists>tpl. map_dynamic_field e st ix f = Inr tpl
     \<and> map_of (mapping tpl) ''analyzer'' =
         (if ftype f @ ''_index'' \<in> get_all_analyzers ix \<or> ftype f \<in> get_all_analyzers ix
          then Some (JStr (ftype f))
          else map_of (rev (project_attrs (attributes_mapping e) (fitems f) [])) ''analyzer'')
     \<and> map_of (mapping tpl) ''search_analyzer'' =
         (if ftype f @ ''s_query'' \<in> get_all_analyzers ix
          then Some (JStr (ftype f @ ''s_query''))
          else map_of (rev (project_attrs (attributes_mapping e) (fitems f) []))
                 ''search_analyzer'')"
  using assms
  by (simp add: map_dynamic_field_def Let_def map_of_dict_set map_of_fold_dict_set
      split: option.splits)


text \<open>
  C8 at a dynamic field: the type \<open>text_general\<close> is bound, and its analyzers are
  registered as \<open>text_general_index\<close> and \<open>text_general_query\<close> (what the field-type loop
  leaves for Solr's stock \<open>text_general\<close>). The field mapper attaches these two names. The
  dynamic-field mapper attaches \<open>text_general\<close>, which is no registered analyzer, and no
  search analyzer at all.
\<close>

theorem dynamic_field_analyzers_diverge:
  "map_dynamic_field demo_env
     (init_helper_state\<lparr>field_types_map := [''text_general'' \<mapsto> Some ''text'']\<rparr>)
     (init_index\<lparr>analyzers :=
        [\<lparr>analyzer_name = ''text_general_index'', mapped_tokenizer = None,
          mapped_filters = [], mapped_char_filters = []\<rparr>,
         \<lparr>analyzer_name = ''text_general_query'', mapped_tokenizer = None,
          mapped_filters = [], mapped_char_filters = []\<rparr>]\<rparr>)
     \<lparr>fname = ''*_txt'', ftype = ''text_general'',
      fitems = [(''name'', JStr ''*_txt''), (''type'', JStr ''text_general'')]\<rparr>
   = Inr \<lparr>pattern = ''*_txt'', match = ''*_txt'',
          mapping = [(''type'', JStr ''text''), (''analyzer'', JStr ''text_general'')]\<rparr>
   \<and> ''text_general'' \<notin> get_all_analyzers
       (init_index\<lparr>analyzers :=
        [\<lparr>analyzer_name = ''text_general_index'', mapped_tokenizer = None,
          mapped_filters = [], mapped_char_filters = []\<rparr>,
         \<lparr>analyzer_name = ''text_general_query'', mapped_tokenizer = None,
          mapped_filters = [], mapped_char_filters = []\<rparr>]\<rparr>)
   \<and> map_field demo_env
     (init_helper_state\<lparr>field_types_map := [''text_general'' \<mapsto> Some ''text'']\<rparr>)
     (init_index\<lparr>analyzers :=
        [\<lparr>analyzer_name = ''text_general_index'', mapped_tokenizer = None,
          mapped_filters = [], mapped_char_filters = []\<rparr>,
         \<lparr>analyzer_name = ''text_general_query'', mapped_tokenizer = None,
          mapped_filters = [], mapped_char_filters = []\<rparr>]\<rparr>)
     \<lparr>fname = ''*_txt'', ftype = ''text_general'',
      fitems = [(''name'', JStr ''*_txt''), (''type'', JStr ''text_general'')]\<rparr>
   = Inr (''*_txt'', [(''type'', JStr ''text''), (''analyzer'', JStr ''text_general_index''),
                      (''search_analyzer'', JStr ''text_general_query'')])"
  by (simp add: map_dynamic_field_def map_field_def get_field_type_def get_all_analyzers_def
      init_helper_state_def init_index_def demo_env_def setup_analyzers_def
      cleanup_field_attrs_def dict_set_def Let_def)

section \<open>The orchestration loops\<close>

lemma counters_details [simp]:
  "counters (add_tokenizer_detail r a b c d x) = counters r"
  "counters (add_filter_detail r a b c d x) = counters r"
  "counters (add_char_filter_detail r a b c d x) = counters r"
  by (simp_all add: counters_def add_tokenizer_detail_def add_filter_detail_def
      add_char_filter_detail_def)

lemma exception_list_details [simp]:
  "field_type_exception_list (add_tokenizer_detail r a b c d x) = field_type_exception_list r"
  "field_type_exception_list (add_filter_detail r a b c d x) = field_type_exception_list r"
  "field_type_exception_list (add_char_filter_detail r a b c d x) = field_type_exception_list r"
  by (simp_all add: add_tokenizer_detail_def add_filter_detail_def add_char_filter_detail_def)

lemma track_errors_counters [simp]: "counters (track_errors r x) = counters r"
  by (induction r x rule: track_errors.induct) (simp_all add: Let_def split: option.splits)

lemma track_errors_exception_list [simp]:
  "field_type_exception_list (track_errors r x) = field_type_exception_list r"
  by (induction r x rule: track_errors.induct) (simp_all add: Let_def split: option.splits)






lemma track_errors_fields [simp]:
  "field_types_solr (track_errors r x) = field_types_solr r"
  "field_types_os (track_errors r x) = field_types_os r"
  "field_types_error (track_errors r x) = field_types_error r"
  using track_errors_counters [of r x] by (simp_all add: counters_def)










section \<open>The accounting invariant of the report\<close>













end
